theory Spec2Isabelle
  imports Complex_Main "HOL-Library.Word"
begin

section \<open>PADMA: the intake form and image front end of \<^verbatim>\<open>src/PADMA.py\<close>\<close>

text \<open>
  The script has three parts: \<^verbatim>\<open>process_image\<close> (lines 68-77), \<^verbatim>\<open>predict_image\<close>
  (lines 79-89) and the submit handler inside \<^verbatim>\<open>main\<close> (lines 134-169). They are
  embedded below as HOL functions. What the script shows to the user and what it sends
  over the network is a list of events; an exception that nothing catches is the
  \<open>Inl\<close> branch of the result.

  The script calls PIL, OpenCV, requests and Streamlit. Their code is not part of the
  repository. Pure data shuffling with a fixed meaning (channel swap, split, merge,
  base64, the \<^verbatim>\<open>.2f\<close> format, \<^verbatim>\<open>raise_for_status\<close>) is written out; everything
  else (decoding, resampling, the equalisation itself, PNG compression, JSON parsing) is a
  field of the record \<open>library\<close>, about which the theorems assume nothing.
\<close>

subsection \<open>Python values\<close>

type_synonym byte = "8 word"

text \<open>
  A Python \<^verbatim>\<open>float\<close> is an IEEE double: a sign and a magnitude for the finite ones
  (so that \<^verbatim>\<open>-0.0\<close> is a value of its own), the two infinities, and NaN.
\<close>

datatype pyfloat = Finite bool rat | Infinity bool | NaN

text \<open>What \<^verbatim>\<open>response.json()\<close> can return; a dict is its items in insertion order.\<close>

datatype pyval =
    PNone
  | PBool bool
  | PInt int
  | PFloat pyfloat
  | PStr string
  | PList "pyval list"
  | PDict "(string \<times> pyval) list"

datatype py_error =
    TypeError
  | ValueError
  | OverflowError
  | KeyError
  | AttributeError
  | Cv2Error
  | ImageError string
  | OSError string

subsection \<open>Doubles: rounding to nearest, ties to even\<close>

definition round_half_even :: "rat \<Rightarrow> int" where
  "round_half_even q =
     (let f = \<lfloor>q\<rfloor>; d = q - of_int f
      in if d < 1 / 2 then f
         else if 1 / 2 < d then f + 1
         else if even f then f else f + 1)"

definition pow2 :: "int \<Rightarrow> rat" where
  "pow2 k = (if 0 \<le> k then of_int (2 ^ nat k) else 1 / of_int (2 ^ nat (- k)))"

text \<open>The number of bits of a positive integer (Python's \<^verbatim>\<open>int.bit_length\<close>).\<close>

function bit_length :: "int \<Rightarrow> int" where
  "bit_length n = (if 0 < n then bit_length (n div 2) + 1 else 0)"
  by pat_completeness auto
termination
  by (relation "measure nat") auto

declare bit_length.simps [simp del]

text \<open>
  \<open>ilog2 q\<close> is the \<open>k\<close> with \<open>2^k \<le> q < 2^(k+1)\<close>, for \<open>q > 0\<close>: one less than
  the bit length of \<open>\<lfloor>q\<rfloor>\<close> when \<open>q \<ge> 1\<close>, and read off \<open>1 / q\<close> otherwise.
\<close>

definition ilog2 :: "rat \<Rightarrow> int" where
  "ilog2 q =
     (if 1 \<le> q then bit_length \<lfloor>q\<rfloor> - 1
      else - bit_length (\<lceil>1 / q\<rceil> - 1))"

text \<open>
  The double nearest to a non-negative rational: a significand \<open>m\<close> of at most 53 bits
  and the exponent \<open>e\<close> of its last bit, no smaller than \<open>-1074\<close> (subnormals). The
  result is \<open>None\<close> when the rounded value \<open>m * 2^e\<close> reaches \<open>2^1024\<close>, which no double
  holds.
\<close>

definition round_double :: "rat \<Rightarrow> rat option" where
  "round_double q =
     (if q = 0 then Some 0
      else let e = max (ilog2 q - 52) (- 1074);
               m = round_half_even (q / pow2 e)
           in if bit_length m + e \<le> 1024 then Some (of_int m * pow2 e) else None)"

text \<open>
  A JSON number with a fraction or an exponent, read by Python's \<^verbatim>\<open>json\<close> module:
  the nearest double, an infinity when out of range.
\<close>

definition float_of_decimal :: "rat \<Rightarrow> pyfloat" where
  "float_of_decimal q =
     (case round_double \<bar>q\<bar> of
        Some v \<Rightarrow> Finite (q < 0) v
      | None \<Rightarrow> Infinity (q < 0))"

text \<open>\<^verbatim>\<open>float(n)\<close> for an \<^verbatim>\<open>int\<close>: the nearest double, or \<^verbatim>\<open>OverflowError\<close>.\<close>

definition float_of_int :: "int \<Rightarrow> py_error + pyfloat" where
  "float_of_int n =
     (case round_double (of_int \<bar>n\<bar>) of
        Some v \<Rightarrow> Inr (Finite (n < 0) v)
      | None \<Rightarrow> Inl OverflowError)"

subsection \<open>Formatting\<close>

definition digit_char :: "int \<Rightarrow> char" where
  "digit_char d =
     (if d = 0 then CHR ''0'' else if d = 1 then CHR ''1'' else if d = 2 then CHR ''2''
      else if d = 3 then CHR ''3'' else if d = 4 then CHR ''4'' else if d = 5 then CHR ''5''
      else if d = 6 then CHR ''6'' else if d = 7 then CHR ''7'' else if d = 8 then CHR ''8''
      else CHR ''9'')"

text \<open>The decimal digits of a non-negative integer.\<close>

function str_nat :: "int \<Rightarrow> string" where
  "str_nat n =
     (if n < 10 then [digit_char n]
      else str_nat (n div 10) @ [digit_char (n mod 10)])"
  by pat_completeness auto
termination
  by (relation "measure nat") auto

declare str_nat.simps [simp del]

definition str_int :: "int \<Rightarrow> string" where
  "str_int i = (if i < 0 then ''-'' @ str_nat (- i) else str_nat i)"

text \<open>
  \<^verbatim>\<open>f"{x:.2f}"\<close>: the exact value of the double, rounded to two decimals (ties to
  even), with the sign of the double in front.
\<close>

fun format_2f :: "pyfloat \<Rightarrow> string" where
  "format_2f NaN = ''nan''"
| "format_2f (Infinity s) = (if s then ''-inf'' else ''inf'')"
| "format_2f (Finite s m) =
     (let n = round_half_even (m * 100)
      in (if s then ''-'' else '''') @ str_nat (n div 100) @ ''.''
         @ [digit_char (n mod 100 div 10), digit_char (n mod 10)])"

subsection \<open>Operations of Python on parsed JSON\<close>

text \<open>\<^verbatim>\<open>if x:\<close> on a value.\<close>

fun truthy :: "pyval \<Rightarrow> bool" where
  "truthy PNone = False"
| "truthy (PBool b) = b"
| "truthy (PInt i) = (i \<noteq> 0)"
| "truthy (PFloat (Finite s m)) = (m \<noteq> 0)"
| "truthy (PFloat _) = True"
| "truthy (PStr s) = (s \<noteq> [])"
| "truthy (PList xs) = (xs \<noteq> [])"
| "truthy (PDict kvs) = (kvs \<noteq> [])"

fun is_substring :: "string \<Rightarrow> string \<Rightarrow> bool" where
  "is_substring k [] = (k = [])"
| "is_substring k (c # s) = (take (length k) (c # s) = k \<or> is_substring k s)"

text \<open>
  \<^verbatim>\<open>k in x\<close> for a string \<open>k\<close>: a key of a dict, an element of a list, a substring of a
  string; any other value is not a container.
\<close>

fun py_contains :: "pyval \<Rightarrow> string \<Rightarrow> py_error + bool" where
  "py_contains (PDict kvs) k = Inr (k \<in> set (map fst kvs))"
| "py_contains (PList xs) k = Inr (PStr k \<in> set xs)"
| "py_contains (PStr s) k = Inr (is_substring k s)"
| "py_contains _ k = Inl TypeError"

text \<open>\<^verbatim>\<open>x[k]\<close> for a string \<open>k\<close>.\<close>

fun py_getitem :: "pyval \<Rightarrow> string \<Rightarrow> py_error + pyval" where
  "py_getitem (PDict kvs) k = (case map_of kvs k of None \<Rightarrow> Inl KeyError | Some v \<Rightarrow> Inr v)"
| "py_getitem _ k = Inl TypeError"

text \<open>What a \<^verbatim>\<open>for\<close> loop or \<^verbatim>\<open>zip\<close> draws from a value.\<close>

fun py_iter :: "pyval \<Rightarrow> py_error + pyval list" where
  "py_iter (PList xs) = Inr xs"
| "py_iter (PStr s) = Inr (map (\<lambda>c. PStr [c]) s)"
| "py_iter (PDict kvs) = Inr (map (\<lambda>kv. PStr (fst kv)) kvs)"
| "py_iter _ = Inl TypeError"

subsection \<open>Images\<close>

text \<open>
  An RGB image of PIL and the \<open>H \<times> W \<times> 3\<close> array of bytes that \<^verbatim>\<open>np.array\<close> makes of
  it are the same data: rows of pixels, three bytes each. A plane is one channel.
\<close>

type_synonym pixel = "byte \<times> byte \<times> byte"
type_synonym array3 = "pixel list list"
type_synonym plane = "byte list list"

definition np_array :: "array3 \<Rightarrow> array3" where
  "np_array img = img"

definition Image_fromarray :: "array3 \<Rightarrow> array3" where
  "Image_fromarray arr = arr"

datatype color_code = COLOR_RGB2BGR | COLOR_BGR2RGB

text \<open>Both conversions exchange the first and the third channel.\<close>

fun cvtColor :: "array3 \<Rightarrow> color_code \<Rightarrow> array3" where
  "cvtColor src COLOR_RGB2BGR = map (map (\<lambda>(r, g, b). (b, g, r))) src"
| "cvtColor src COLOR_BGR2RGB = map (map (\<lambda>(b, g, r). (r, g, b))) src"

definition cv2_split :: "array3 \<Rightarrow> plane \<times> plane \<times> plane" where
  "cv2_split m =
     (map (map (\<lambda>(c0, c1, c2). c0)) m,
      map (map (\<lambda>(c0, c1, c2). c1)) m,
      map (map (\<lambda>(c0, c1, c2). c2)) m)"

text \<open>\<^verbatim>\<open>cv2.merge\<close> refuses planes of different sizes.\<close>

definition cv2_merge :: "plane \<times> plane \<times> plane \<Rightarrow> py_error + array3" where
  "cv2_merge mv =
     (case mv of (p0, p1, p2) \<Rightarrow>
        if map length p0 = map length p1 \<and> map length p1 = map length p2
        then Inr (map (\<lambda>(r0, r1, r2). zip r0 (zip r1 r2)) (zip p0 (zip p1 p2)))
        else Inl Cv2Error)"

record clahe =
  clipLimit :: rat
  tileGridSize :: "nat \<times> nat"

definition createCLAHE :: "rat \<Rightarrow> nat \<times> nat \<Rightarrow> clahe" where
  "createCLAHE limit grid = \<lparr>clipLimit = limit, tileGridSize = grid\<rparr>"

subsection \<open>HTTP\<close>

record response =
  status_code :: int
  reason :: string
  url :: string
  content :: string

datatype http_outcome = Raised string | Responded response

text \<open>
  \<^verbatim>\<open>Response.raise_for_status\<close> of requests: an \<^verbatim>\<open>HTTPError\<close> for the status codes
  400 to 599, with the text below, and nothing for any other status.
\<close>

definition raise_for_status :: "response \<Rightarrow> string option" where
  "raise_for_status r =
     (if 400 \<le> status_code r \<and> status_code r < 500
      then Some (str_int (status_code r) @ '' Client Error: '' @ reason r
                 @ '' for url: '' @ url r)
      else if 500 \<le> status_code r \<and> status_code r < 600
      then Some (str_int (status_code r) @ '' Server Error: '' @ reason r
                 @ '' for url: '' @ url r)
      else None)"

subsection \<open>The libraries\<close>

text \<open>
  What the script takes from its libraries and from the network without this theory
  saying what it computes. \<open>'raw\<close> is an image as \<^verbatim>\<open>Image.open\<close> returns it: the file
  is identified, in any mode, and its pixels are not read yet. \<^verbatim>\<open>image.convert("RGB")\<close>
  reads them, and raises when the data is truncated or damaged. A resized image has the
  size asked for and an equalised plane has the size of its source, so the resampling
  filter and the equalisation give one value per position:
  \<open>resize_pixel img (w, h) x y\<close> and \<open>clahe_pixel c src x y\<close>.
\<close>

record 'raw library =
  image_open :: "byte list \<Rightarrow> py_error + 'raw"
  convert_rgb :: "'raw \<Rightarrow> py_error + array3"
  resize_pixel :: "array3 \<Rightarrow> nat \<times> nat \<Rightarrow> nat \<Rightarrow> nat \<Rightarrow> pixel"
  clahe_pixel :: "clahe \<Rightarrow> plane \<Rightarrow> nat \<Rightarrow> nat \<Rightarrow> byte"
  png_encode :: "array3 \<Rightarrow> byte list"
  requests_post :: "string \<Rightarrow> pyval \<Rightarrow> http_outcome"
  json_decode :: "string \<Rightarrow> string + pyval"
  str_other :: "pyval \<Rightarrow> string"
  float_of_str :: "string \<Rightarrow> pyfloat option"

text \<open>\<^verbatim>\<open>image.resize((w, h))\<close>\<close>

definition pil_resize :: "'raw library \<Rightarrow> array3 \<Rightarrow> nat \<times> nat \<Rightarrow> array3" where
  "pil_resize lib img sz =
     (case sz of (w, h) \<Rightarrow>
        map (\<lambda>y. map (\<lambda>x. resize_pixel lib img (w, h) x y) [0..<w]) [0..<h])"

text \<open>\<^verbatim>\<open>clahe.apply(src)\<close>\<close>

definition clahe_apply :: "'raw library \<Rightarrow> clahe \<Rightarrow> plane \<Rightarrow> plane" where
  "clahe_apply lib c src =
     map (\<lambda>y. map (\<lambda>x. clahe_pixel lib c src x y) [0..<length (src ! y)]) [0..<length src]"

text \<open>\<^verbatim>\<open>float(x)\<close>\<close>

fun py_float :: "'raw library \<Rightarrow> pyval \<Rightarrow> py_error + pyfloat" where
  "py_float lib (PFloat f) = Inr f"
| "py_float lib (PInt i) = float_of_int i"
| "py_float lib (PBool b) = Inr (Finite False (if b then 1 else 0))"
| "py_float lib (PStr s) =
     (case float_of_str lib s of None \<Rightarrow> Inl ValueError | Some f \<Rightarrow> Inr f)"
| "py_float lib _ = Inl TypeError"

text \<open>\<^verbatim>\<open>f"{x}"\<close>: a string as it is, any other value as \<^verbatim>\<open>str\<close> prints it.\<close>

fun py_format :: "'raw library \<Rightarrow> pyval \<Rightarrow> string" where
  "py_format lib (PStr s) = s"
| "py_format lib v = str_other lib v"

subsection \<open>Base64\<close>

text \<open>
  \<^verbatim>\<open>base64.b64encode\<close>: the standard alphabet, three bytes to four characters, padded
  with \<^verbatim>\<open>=\<close>. The result is ASCII, so \<^verbatim>\<open>.decode("utf-8")\<close> keeps every character.
\<close>

definition b64chars :: string where
  "b64chars = ''ABCDEFGHIJKLMNOPQRSTUVWXYZabcdefghijklmnopqrstuvwxyz0123456789+/''"

definition b64char :: "nat \<Rightarrow> char" where
  "b64char i = b64chars ! i"

fun b64encode :: "byte list \<Rightarrow> string" where
  "b64encode [] = []"
| "b64encode [a] =
     (let n = unat a * 65536
      in [b64char (n div 262144), b64char (n div 4096 mod 64), CHR ''='', CHR ''=''])"
| "b64encode [a, b] =
     (let n = unat a * 65536 + unat b * 256
      in [b64char (n div 262144), b64char (n div 4096 mod 64), b64char (n div 64 mod 64),
          CHR ''=''])"
| "b64encode (a # b # c # rest) =
     (let n = unat a * 65536 + unat b * 256 + unat c
      in [b64char (n div 262144), b64char (n div 4096 mod 64), b64char (n div 64 mod 64),
          b64char (n mod 64)] @ b64encode rest)"

text \<open>
  The way back, as a strict decoder: four characters to three bytes, \<open>None\<close> on a
  character outside the alphabet or on a length that is no multiple of four.
\<close>

definition b64index :: "char \<Rightarrow> nat option" where
  "b64index c = map_of (zip b64chars [0..<64]) c"

fun b64decode :: "string \<Rightarrow> byte list option" where
  "b64decode [] = Some []"
| "b64decode [c0, c1, c2, c3] =
     (case (b64index c0, b64index c1) of
        (Some s0, Some s1) \<Rightarrow>
          if c2 = CHR ''='' \<and> c3 = CHR ''='' then
            Some [of_nat ((s0 * 262144 + s1 * 4096) div 65536)]
          else (case b64index c2 of
             None \<Rightarrow> None
           | Some s2 \<Rightarrow>
               if c3 = CHR ''='' then
                 (let n = s0 * 262144 + s1 * 4096 + s2 * 64
                  in Some [of_nat (n div 65536), of_nat (n div 256 mod 256)])
               else (case b64index c3 of
                  None \<Rightarrow> None
                | Some s3 \<Rightarrow>
                    (let n = s0 * 262144 + s1 * 4096 + s2 * 64 + s3
                     in Some [of_nat (n div 65536), of_nat (n div 256 mod 256),
                              of_nat (n mod 256)])))
      | _ \<Rightarrow> None)"
| "b64decode (c0 # c1 # c2 # c3 # rest) =
     (case (b64index c0, b64index c1, b64index c2, b64index c3, b64decode rest) of
        (Some s0, Some s1, Some s2, Some s3, Some bs) \<Rightarrow>
          (let n = s0 * 262144 + s1 * 4096 + s2 * 64 + s3
           in Some (of_nat (n div 65536) # of_nat (n div 256 mod 256) # of_nat (n mod 256)
                    # bs))
      | _ \<Rightarrow> None)"
| "b64decode _ = None"

subsection \<open>What the user sees and what goes over the network\<close>

datatype event =
    StError string
  | StSuccess string
  | StSubheader string
  | StMarkdown string
  | StImage array3 string
  | SpinnerEnter string
  | SpinnerExit
  | HttpPost string pyval

text \<open>
  \<open>HttpPost u body\<close> is one call of \<^verbatim>\<open>requests.post\<close> with the URL \<open>u\<close> and the JSON
  body \<open>body\<close>.
\<close>

text \<open>
  A piece of the script: the events it produced, and either its value or the exception
  that ended it.
\<close>

type_synonym 'a comp = "event list \<times> (py_error + 'a)"

definition emit :: "event \<Rightarrow> unit comp" where
  "emit e = ([e], Inr ())"

definition lift :: "py_error + 'a \<Rightarrow> 'a comp" where
  "lift r = ([], r)"

definition and_then :: "'a comp \<Rightarrow> ('a \<Rightarrow> 'b comp) \<Rightarrow> 'b comp" where
  "and_then m f =
     (case m of
        (es, Inl e) \<Rightarrow> (es, Inl e)
      | (es, Inr x) \<Rightarrow> (case f x of (es', r) \<Rightarrow> (es @ es', r)))"

text \<open>\<^verbatim>\<open>with st.spinner(msg):\<close> shows the spinner and removes it however the body ends.\<close>

definition with_spinner :: "string \<Rightarrow> 'a comp \<Rightarrow> 'a comp" where
  "with_spinner msg body =
     (case body of (es, r) \<Rightarrow> (SpinnerEnter msg # es @ [SpinnerExit], r))"

subsection \<open>\<^verbatim>\<open>process_image\<close> (lines 68-77)\<close>

text \<open>
  Line 69 is where the pixels are read: an exception of \<^verbatim>\<open>image.convert("RGB")\<close>
  leaves \<^verbatim>\<open>process_image\<close> at once.
\<close>

definition process_image :: "'raw library \<Rightarrow> 'raw \<Rightarrow> py_error + (array3 \<times> array3)" where
  "process_image lib raw =
     (case convert_rgb lib raw of
        Inl e \<Rightarrow> Inl e
      | Inr rgb \<Rightarrow>
          (let img = pil_resize lib rgb (224, 224);
               img_np = np_array img;
               img_np = cvtColor img_np COLOR_RGB2BGR;
               (b, g, r) = cv2_split img_np;
               clahe = createCLAHE 2 (8, 8);
               (b, g, r) = (clahe_apply lib clahe b, clahe_apply lib clahe g,
                            clahe_apply lib clahe r)
           in case cv2_merge (b, g, r) of
                Inl e \<Rightarrow> Inl e
              | Inr processed_img \<Rightarrow>
                  Inr (img, Image_fromarray (cvtColor processed_img COLOR_BGR2RGB))))"

subsection \<open>\<^verbatim>\<open>predict_image\<close> (lines 79-89)\<close>

definition predict_url :: string where
  "predict_url = ''https://backendapi-ctgr.onrender.com/predict''"

text \<open>
  The body of the \<^verbatim>\<open>try\<close>: the parsed answer, or the text of the exception raised by
  \<^verbatim>\<open>requests.post\<close>, by \<^verbatim>\<open>raise_for_status\<close> or by \<^verbatim>\<open>response.json\<close>.
\<close>

definition try_post :: "'raw library \<Rightarrow> pyval \<Rightarrow> string + pyval" where
  "try_post lib body =
     (case requests_post lib predict_url body of
        Raised e \<Rightarrow> Inl e
      | Responded response \<Rightarrow>
          (case raise_for_status response of
             Some e \<Rightarrow> Inl e
           | None \<Rightarrow> json_decode lib (content response)))"

text \<open>The value returned is \<open>PNone\<close> after an exception.\<close>

definition predict_image :: "'raw library \<Rightarrow> array3 \<Rightarrow> event list \<times> pyval" where
  "predict_image lib img =
     (let buffer = png_encode lib img;
          img_data = b64encode buffer;
          body = PDict [(''file'', PStr img_data)]
      in case try_post lib body of
           Inr v \<Rightarrow> ([HttpPost predict_url body], v)
         | Inl e \<Rightarrow>
             ([HttpPost predict_url body, StError (''Prediction API Error: '' @ e)], PNone))"

subsection \<open>The result display (lines 155-169 of \<^verbatim>\<open>main\<close>)\<close>

text \<open>The markup of one result, from the text of the label and of the probability.\<close>

definition result_line :: "string \<Rightarrow> string \<Rightarrow> string" where
  "result_line label_text prob_text =
     ''<div style='' @ [CHR 0x27]
     @ ''padding:1rem; background:#f8fafc; border-radius:8px; margin:0.5rem 0;''
     @ [CHR 0x27] @ ''>''
     @ ''<b>'' @ label_text @ ''</b>: '' @ prob_text @ ''%''
     @ ''</div>''"

text \<open>The \<^verbatim>\<open>for\<close> loop over the zipped pairs; \<^verbatim>\<open>float(prob)\<close> may raise.\<close>

fun render_pairs :: "'raw library \<Rightarrow> (pyval \<times> pyval) list \<Rightarrow> unit comp" where
  "render_pairs lib [] = ([], Inr ())"
| "render_pairs lib ((label, prob) # rest) =
     and_then (lift (py_float lib prob)) (\<lambda>f.
     and_then (emit (StMarkdown (result_line (py_format lib label) (format_2f f)))) (\<lambda>_.
       render_pairs lib rest))"

definition render :: "'raw library \<Rightarrow> pyval \<Rightarrow> unit comp" where
  "render lib predictions =
     (if truthy predictions then
        and_then (lift (py_contains predictions ''probabilities'')) (\<lambda>has_probabilities.
        and_then (lift (if has_probabilities then py_contains predictions ''labels''
                        else Inr False)) (\<lambda>has_both.
          if has_both then
            and_then (emit (StSuccess ''Analysis Complete!'')) (\<lambda>_.
            and_then (emit (StSubheader ''Results:'')) (\<lambda>_.
            and_then (lift (py_getitem predictions ''labels'')) (\<lambda>labels.
            and_then (lift (py_getitem predictions ''probabilities'')) (\<lambda>probabilities.
            and_then (lift (py_iter labels)) (\<lambda>ls.
            and_then (lift (py_iter probabilities)) (\<lambda>ps.
              render_pairs lib (zip ls ps)))))))
          else
            and_then (lift (py_contains predictions ''error'')) (\<lambda>has_error.
              if has_error then
                and_then (lift (py_getitem predictions ''error'')) (\<lambda>err.
                  emit (StError (''Backend Error: '' @ py_format lib err)))
              else emit (StError ''Unexpected response from backend.''))))
      else ([], Inr ()))"

subsection \<open>The form and its validation (lines 134-148 of \<^verbatim>\<open>main\<close>)\<close>

text \<open>
  The values of the widgets when the script runs. \<open>None\<close> is Python's \<^verbatim>\<open>None\<close>.
  \<open>diabetes_years\<close> is bound only when \<open>diabetes\<close> is \<^verbatim>\<open>"Yes"\<close>, and the script
  reads it only then.
\<close>

type_synonym date = "nat \<times> nat \<times> nat"

record form =
  full_name :: string
  dob :: "date option"
  age :: "int option"
  email :: string
  gender :: string
  contact :: string
  diabetes :: "string option"
  diabetes_years :: "int option"
  high_bp :: "string option"
  medications :: string
  uploaded_file :: "byte list option"

text \<open>
  \<^verbatim>\<open>not x\<close> is true of the empty string, of \<^verbatim>\<open>None\<close> and of the number 0; a date
  and an uploaded file are never false.
\<close>

definition missing :: "form \<Rightarrow> string list" where
  "missing f =
     (if full_name f = [] then [''Full Name''] else [])
     @ (if email f = [] then [''Email''] else [])
     @ (if dob f = None then [''Date of Birth''] else [])
     @ (if age f = None \<or> age f = Some 0 then [''Age''] else [])
     @ (if gender f = ''Select Gender'' then [''Gender''] else [])
     @ (if contact f = [] then [''Contact Number''] else [])
     @ (if diabetes f = None then [''Diabetes Status''] else [])
     @ (if diabetes f = Some ''Yes'' \<and> diabetes_years f = None
        then [''Years with Diabetes''] else [])
     @ (if high_bp f = None then [''Blood Pressure Status''] else [])
     @ (if uploaded_file f = None then [''Image Upload''] else [])"

fun join :: "string \<Rightarrow> string list \<Rightarrow> string" where
  "join sep [] = []"
| "join sep [x] = x"
| "join sep (x # y # ys) = x @ sep @ join sep (y # ys)"

subsection \<open>The submit handler (lines 134-169 of \<^verbatim>\<open>main\<close>)\<close>

text \<open>
  \<open>clicked\<close> is the value of \<^verbatim>\<open>st.button("Analyze & Generate Report")\<close>.
  No \<^verbatim>\<open>try\<close> surrounds \<^verbatim>\<open>Image.open\<close>, \<^verbatim>\<open>process_image\<close> and the display of the
  result: an exception of any of them ends the handler.
\<close>

definition main :: "'raw library \<Rightarrow> bool \<Rightarrow> form \<Rightarrow> unit comp" where
  "main lib clicked f =
     (if clicked then
        if missing f \<noteq> [] then
          emit (StError (''Please complete the following required fields: ''
                         @ join '', '' (missing f)))
        else
          with_spinner ''Processing image and generating prediction...''
            (and_then (lift (case uploaded_file f of
                               None \<Rightarrow> Inl AttributeError
                             | Some file \<Rightarrow> image_open lib file)) (\<lambda>raw.
             and_then (lift (process_image lib raw)) (\<lambda>(_, processed_image).
             and_then (emit (StImage processed_image ''Processed Image'')) (\<lambda>_.
             and_then (case predict_image lib processed_image of
                         (es, predictions) \<Rightarrow> (es, Inr predictions)) (\<lambda>predictions.
               render lib predictions)))))
      else ([], Inr ()))"

subsection \<open>The required fields, in the words of the specification\<close>

datatype field =
    FullName | Email | DateOfBirth | Age | Gender | ContactNumber
  | DiabetesStatus | YearsWithDiabetes | BloodPressureStatus | ImageUpload

definition all_fields :: "field list" where
  "all_fields =
     [FullName, Email, DateOfBirth, Age, Gender, ContactNumber,
      DiabetesStatus, YearsWithDiabetes, BloodPressureStatus, ImageUpload]"

fun field_name :: "field \<Rightarrow> string" where
  "field_name FullName = ''Full Name''"
| "field_name Email = ''Email''"
| "field_name DateOfBirth = ''Date of Birth''"
| "field_name Age = ''Age''"
| "field_name Gender = ''Gender''"
| "field_name ContactNumber = ''Contact Number''"
| "field_name DiabetesStatus = ''Diabetes Status''"
| "field_name YearsWithDiabetes = ''Years with Diabetes''"
| "field_name BloodPressureStatus = ''Blood Pressure Status''"
| "field_name ImageUpload = ''Image Upload''"

text \<open>Years with diabetes is asked for only when the diabetes radio says Yes.\<close>

fun required :: "form \<Rightarrow> field \<Rightarrow> bool" where
  "required f YearsWithDiabetes = (diabetes f = Some ''Yes'')"
| "required f _ = True"

text \<open>
  A text field is unset when empty, the age when unset or zero, the gender when it is
  still the placeholder, every other field when it has no value.
\<close>

fun unset :: "form \<Rightarrow> field \<Rightarrow> bool" where
  "unset f FullName = (full_name f = [])"
| "unset f Email = (email f = [])"
| "unset f DateOfBirth = (dob f = None)"
| "unset f Age = (age f = None \<or> age f = Some 0)"
| "unset f Gender = (gender f = ''Select Gender'')"
| "unset f ContactNumber = (contact f = [])"
| "unset f DiabetesStatus = (diabetes f = None)"
| "unset f YearsWithDiabetes = (diabetes_years f = None)"
| "unset f BloodPressureStatus = (high_bp f = None)"
| "unset f ImageUpload = (uploaded_file f = None)"

fun is_post :: "event \<Rightarrow> bool" where
  "is_post (HttpPost u body) = True"
| "is_post _ = False"

subsection \<open>The preprocessing steps, in the words of the specification\<close>

text \<open>An array of \<open>h\<close> rows of \<open>w\<close> entries each: \<open>w \<times> h\<close> pixels.\<close>

definition is_size :: "nat \<Rightarrow> nat \<Rightarrow> 'a list list \<Rightarrow> bool" where
  "is_size w h m = (map length m = replicate h w)"

text \<open>Three planes of one size, put together pixel by pixel.\<close>

definition merge_planes :: "plane \<Rightarrow> plane \<Rightarrow> plane \<Rightarrow> array3" where
  "merge_planes p0 p1 p2 = map (\<lambda>(r0, r1, r2). zip r0 (zip r1 r2)) (zip p0 (zip p1 p2))"

text \<open>
  The steps of the specification, one after the other, on the RGB image \<open>rgb\<close> that the
  first step (convert to RGB) has made of a decodable input; the result is the equalised
  image together with the resized image that was not equalised.
\<close>

definition spec_preprocess :: "'raw library \<Rightarrow> array3 \<Rightarrow> array3 \<times> array3" where
  "spec_preprocess lib rgb =
     (let resized = pil_resize lib rgb (224, 224);
          bgr = cvtColor resized COLOR_RGB2BGR;
          (p0, p1, p2) = cv2_split bgr;
          equalize = clahe_apply lib \<lparr>clipLimit = 2, tileGridSize = (8, 8)\<rparr>;
          merged = merge_planes (equalize p0) (equalize p1) (equalize p2);
          out = cvtColor merged COLOR_BGR2RGB
      in (out, resized))"

text \<open>The JSON body that \<^verbatim>\<open>predict_image\<close> sends for an image.\<close>

abbreviation request_body :: "'raw library \<Rightarrow> array3 \<Rightarrow> pyval" where
  "request_body lib img \<equiv> PDict [(''file'', PStr (b64encode (png_encode lib img)))]"

subsection \<open>A stand-in for the libraries, and a filled form\<close>

text \<open>
  Concrete values on which the definitions can be run. An image file is one byte that
  says how many pixels follow, then one grey value per pixel: the empty file cannot be
  identified, and a file with fewer values than announced is truncated, which shows only
  when the pixels are read. Resampling takes the nearest neighbour, the equalisation
  changes nothing, the backend answers \<^verbatim>\<open>200\<close> with \<^verbatim>\<open>{}\<close>.
\<close>

definition sample_library :: "byte list library" where
  "sample_library =
     \<lparr>image_open = (\<lambda>bs. if bs = [] then Inl (ImageError ''cannot identify image file'')
                          else Inr bs),
      convert_rgb = (\<lambda>raw. case raw of
          [] \<Rightarrow> Inl (OSError ''image file is truncated'')
        | n # values \<Rightarrow>
            if length values < unat n then Inl (OSError ''image file is truncated'')
            else Inr [map (\<lambda>b. (b, b, b)) (take (unat n) values)]),
      resize_pixel = (\<lambda>img sz x y.
        img ! (y * length img div snd sz) ! (x * length (img ! 0) div fst sz)),
      clahe_pixel = (\<lambda>c src x y. src ! y ! x),
      png_encode = (\<lambda>img. concat (map (\<lambda>(r, g, b). [r, g, b]) (concat img))),
      requests_post = (\<lambda>u body.
        Responded \<lparr>status_code = 200, reason = ''OK'', url = u, content = ''{}''\<rparr>),
      json_decode = (\<lambda>s. if s = ''{}'' then Inr (PDict []) else Inl ''Expecting value''),
      str_other = (\<lambda>v. ''None''),
      float_of_str = (\<lambda>s. None)\<rparr>"

definition sample_form :: form where
  "sample_form =
     \<lparr>full_name = ''Ada Lovelace'', dob = Some (1815, 12, 10), age = Some 36,
      email = ''ada@example.org'', gender = ''Female'', contact = ''555-0100'',
      diabetes = Some ''No'', diabetes_years = None, high_bp = Some ''No'',
      medications = [], uploaded_file = Some [3, 10, 20, 30]\<rparr>"

section \<open>Properties\<close>

subsection \<open>Sequencing\<close>

lemma and_then_emit [simp]: "and_then (emit e) f = (case f () of (es, r) \<Rightarrow> (e # es, r))"
  by (simp add: and_then_def emit_def)

lemma and_then_lift_Inr [simp]: "and_then (lift (Inr x)) f = f x"
  by (simp add: and_then_def lift_def split: prod.splits)

lemma and_then_lift_Inl [simp]: "and_then (lift (Inl e)) f = ([], Inl e)"
  by (simp add: and_then_def lift_def)

subsection \<open>Validation\<close>

lemma set_all_fields: "set all_fields = UNIV"
proof -
  have "fld \<in> set all_fields" for fld
    by (cases fld) (simp_all add: all_fields_def)
  then show ?thesis by auto
qed

lemma distinct_field_names: "distinct (map field_name all_fields)"
  by (simp add: all_fields_def)

lemma map_filter_Cons:
  "map g (filter P (x # xs)) = (if P x then [g x] else []) @ map g (filter P xs)"
  by simp

text \<open>The script tests the fields in the order of \<open>all_fields\<close>.\<close>

lemma missing_filter:
  "missing f = map field_name (filter (\<lambda>fld. required f fld \<and> unset f fld) all_fields)"
  unfolding all_fields_def missing_def map_filter_Cons
  by simp

text \<open>
  C1. When at least one required field is unset, the list \<open>missing\<close> is not empty and
  holds exactly the names of the required fields that are unset, each once (years with
  diabetes being required exactly when the diabetes radio says Yes); the handler then
  shows the one error message and stops, so no HTTP request is made.
\<close>

theorem missing_fields_exact:
  assumes "\<exists>fld. required f fld \<and> unset f fld"
  shows "missing f \<noteq> []
    \<and> set (missing f) = field_name ` {fld. required f fld \<and> unset f fld}
    \<and> distinct (missing f)
    \<and> main lib True f =
        ([StError (''Please complete the following required fields: ''
                   @ join '', '' (missing f))], Inr ())
    \<and> filter is_post (fst (main lib True f)) = []"
proof -
  let ?P = "\<lambda>fld. required f fld \<and> unset f fld"
  from assms obtain fld where "?P fld" by blast
  then have "fld \<in> set (filter ?P all_fields)"
    by (simp add: set_all_fields)
  then have ne: "missing f \<noteq> []"
    unfolding missing_filter by (auto simp: filter_empty_conv)
  have s: "set (missing f) = field_name ` {fld. ?P fld}"
    unfolding missing_filter by (auto simp: set_all_fields)
  have d: "distinct (missing f)"
    unfolding missing_filter
    by (rule distinct_map_filter) (rule distinct_field_names)
  have m: "main lib True f =
        ([StError (''Please complete the following required fields: ''
                   @ join '', '' (missing f))], Inr ())"
    using ne by (simp add: main_def emit_def)
  show ?thesis using ne s d m by simp
qed

theorem missing_fields_exact_witness:
  "(\<exists>fld. required (sample_form\<lparr>email := [], diabetes := Some ''Yes''\<rparr>) fld
          \<and> unset (sample_form\<lparr>email := [], diabetes := Some ''Yes''\<rparr>) fld)
   \<and> missing (sample_form\<lparr>email := [], diabetes := Some ''Yes''\<rparr>)
       = [''Email'', ''Years with Diabetes'']
   \<and> main sample_library True (sample_form\<lparr>email := [], diabetes := Some ''Yes''\<rparr>)
       = ([StError ''Please complete the following required fields: Email, Years with Diabetes''],
          Inr ())"
proof -
  let ?f = "sample_form\<lparr>email := [], diabetes := Some ''Yes''\<rparr>"
  have h: "\<exists>fld. required ?f fld \<and> unset ?f fld"
    by (rule exI [of _ Email]) (simp add: sample_form_def)
  have m: "missing ?f = [''Email'', ''Years with Diabetes'']"
    by (simp add: missing_def sample_form_def)
  from missing_fields_exact [OF h, of sample_library] show ?thesis
    using h by (simp add: m)
qed

subsection \<open>The result display\<close>

lemma render_pairs_markdown:
  "e \<in> set (fst (render_pairs lib pairs)) \<Longrightarrow> \<exists>m. e = StMarkdown m"
proof (induction pairs)
  case Nil
  then show ?case by simp
next
  case (Cons p pairs)
  obtain label prob where p: "p = (label, prob)" by (cases p)
  show ?case
  proof (cases "py_float lib prob")
    case (Inl err)
    with Cons.prems p show ?thesis by simp
  next
    case (Inr f)
    with Cons p show ?thesis
      by (auto split: prod.splits)
  qed
qed

lemma render_pairs_floats:
  "map (py_float lib) (map snd pairs) = map Inr fs \<Longrightarrow>
   render_pairs lib pairs =
     (map (\<lambda>(l, f). StMarkdown (result_line (py_format lib l) (format_2f f)))
        (zip (map fst pairs) fs), Inr ())"
proof (induction pairs arbitrary: fs)
  case Nil
  then show ?case by simp
next
  case (Cons p pairs)
  obtain label prob where p: "p = (label, prob)" by (cases p)
  from Cons.prems obtain f fs' where fs: "fs = f # fs'"
    by (cases fs) auto
  with Cons.prems p have f: "py_float lib prob = Inr f"
    and rest: "map (py_float lib) (map snd pairs) = map Inr fs'"
    by auto
  from Cons.IH [OF rest] show ?case
    by (simp add: p fs f)
qed

lemma zip_take_floats:
  assumes "map g (take (length ls) ps) = map h fs"
  shows "length fs = min (length ls) (length ps)"
    and "map g (map snd (zip ls ps)) = map h fs"
    and "zip (map fst (zip ls ps)) fs = zip ls fs"
proof -
  from assms have "length (map g (take (length ls) ps)) = length (map h fs)"
    by simp
  then show len: "length fs = min (length ls) (length ps)"
    by (simp add: min.commute)
  have "take (min (length ls) (length ps)) ps = take (length ls) ps"
    by (cases "length ls \<le> length ps") (simp_all add: min_def)
  then show "map g (map snd (zip ls ps)) = map h fs"
    using assms by (simp add: map_snd_zip_take)
  have "zip (map fst (zip ls ps)) fs = zip (take (min (length ls) (length ps)) ls) fs"
    by (simp add: map_fst_zip_take)
  also have "\<dots> = zip (take (length fs) ls) (take (length fs) fs)"
    using len by simp
  also have "\<dots> = take (length fs) (zip ls fs)"
    by (simp only: take_zip)
  also have "\<dots> = zip ls fs"
    by simp
  finally show "zip (map fst (zip ls ps)) fs = zip ls fs" .
qed

lemma key_present: "k \<in> fst ` set d \<longleftrightarrow> map_of d k \<noteq> None"
  by (simp add: map_of_eq_None_iff)

lemma render_results:
  assumes "map_of d ''labels'' = Some (PList ls)"
      and "map_of d ''probabilities'' = Some (PList ps)"
      and "map (py_float lib) (take (length ls) ps) = map Inr fs"
  shows "render lib (PDict d) =
           ([StSuccess ''Analysis Complete!'', StSubheader ''Results:'']
            @ map (\<lambda>(l, f). StMarkdown (result_line (py_format lib l) (format_2f f)))
                (zip ls fs), Inr ())"
proof -
  from assms(1) have ne: "d \<noteq> []" by auto
  from assms(1,2) have keys: "''labels'' \<in> fst ` set d" "''probabilities'' \<in> fst ` set d"
    by (simp_all add: key_present)
  have "render_pairs lib (zip ls ps) =
     (map (\<lambda>(l, f). StMarkdown (result_line (py_format lib l) (format_2f f)))
        (zip ls fs), Inr ())"
    using render_pairs_floats [OF zip_take_floats(2) [OF assms(3)]]
    by (simp only: zip_take_floats(3) [OF assms(3)])
  then show ?thesis
    using ne keys assms(1,2) by (simp add: render_def)
qed


lemma round_half_even_near: "\<bar>of_int (round_half_even q) - q\<bar> \<le> 1 / 2"
proof -
  have "of_int \<lfloor>q\<rfloor> \<le> q" "q < of_int \<lfloor>q\<rfloor> + 1"
    by linarith+
  then show ?thesis
    by (auto simp: round_half_even_def Let_def)
qed

text \<open>
  C2. For the empty object \<^verbatim>\<open>{}\<close> the display shows nothing at all: an empty dict is
  false in \<^verbatim>\<open>if predictions:\<close>, so the branch with the generic message is never
  reached. Any non-empty object without the three keys does get the generic message.
\<close>

theorem render_empty_object_silent:
  "render lib (PDict []) = ([], Inr ())
   \<and> render lib (PDict [(''status'', PStr ''ok'')])
       = ([StError ''Unexpected response from backend.''], Inr ())"
  by (simp add: render_def emit_def)

text \<open>
  C7. An object that lacks the pair \<^verbatim>\<open>labels\<close>/\<^verbatim>\<open>probabilities\<close> and has the key
  \<^verbatim>\<open>error\<close> with a string is shown as \<^verbatim>\<open>Backend Error:\<close> followed by that string,
  whatever else the object holds (so neither \<^verbatim>\<open>labels\<close> nor \<^verbatim>\<open>probabilities\<close> is
  read). The three cases exclude one another and are tested in this order: with both
  keys present only the results are shown, even when \<^verbatim>\<open>error\<close> is present too; without
  the pair and without \<^verbatim>\<open>error\<close> a non-empty object gets the generic message.
\<close>

theorem render_error_priority:
  "(\<not> (''probabilities'' \<in> fst ` set d \<and> ''labels'' \<in> fst ` set d) \<longrightarrow>
      map_of d ''error'' = Some (PStr msg) \<longrightarrow>
      render lib (PDict d) = ([StError (''Backend Error: '' @ msg)], Inr ()))
   \<and> (''probabilities'' \<in> fst ` set d \<and> ''labels'' \<in> fst ` set d \<longrightarrow>
      (\<exists>es r. render lib (PDict d)
                 = (StSuccess ''Analysis Complete!'' # StSubheader ''Results:'' # es, r)
          \<and> (\<forall>e \<in> set es. \<exists>m. e = StMarkdown m)))
   \<and> (d \<noteq> [] \<longrightarrow>
      \<not> (''probabilities'' \<in> fst ` set d \<and> ''labels'' \<in> fst ` set d) \<longrightarrow>
      ''error'' \<notin> fst ` set d \<longrightarrow>
      render lib (PDict d) = ([StError ''Unexpected response from backend.''], Inr ()))"
proof (intro conjI impI)
  assume no_pair: "\<not> (''probabilities'' \<in> fst ` set d \<and> ''labels'' \<in> fst ` set d)"
    and err: "map_of d ''error'' = Some (PStr msg)"
  from err have "d \<noteq> []" by auto
  moreover from err have "''error'' \<in> fst ` set d"
    by (simp add: key_present)
  ultimately show "render lib (PDict d) = ([StError (''Backend Error: '' @ msg)], Inr ())"
    using no_pair err by (auto simp: render_def emit_def)
next
  assume both: "''probabilities'' \<in> fst ` set d \<and> ''labels'' \<in> fst ` set d"
  then have ne: "d \<noteq> []" by auto
  from both obtain lv pv where lv: "map_of d ''labels'' = Some lv"
    and pv: "map_of d ''probabilities'' = Some pv"
    by (auto simp: key_present)
  define tail where "tail =
    and_then (lift (py_iter lv)) (\<lambda>ls.
    and_then (lift (py_iter pv)) (\<lambda>ps. render_pairs lib (zip ls ps)))"
  have r: "render lib (PDict d)
      = (StSuccess ''Analysis Complete!'' # StSubheader ''Results:'' # fst tail, snd tail)"
    using ne both lv pv by (simp add: render_def tail_def split: prod.splits)
  have "\<exists>m. e = StMarkdown m" if "e \<in> set (fst tail)" for e
  proof (cases "py_iter lv")
    case (Inl a)
    with that show ?thesis by (simp add: tail_def)
  next
    case ls: (Inr ls)
    show ?thesis
    proof (cases "py_iter pv")
      case (Inl a)
      with that ls show ?thesis by (simp add: tail_def)
    next
      case (Inr ps)
      with that ls show ?thesis
        by (simp add: tail_def render_pairs_markdown)
    qed
  qed
  with r show "\<exists>es r. render lib (PDict d)
                 = (StSuccess ''Analysis Complete!'' # StSubheader ''Results:'' # es, r)
          \<and> (\<forall>e \<in> set es. \<exists>m. e = StMarkdown m)"
    by blast
next
  assume "d \<noteq> []"
    and "\<not> (''probabilities'' \<in> fst ` set d \<and> ''labels'' \<in> fst ` set d)"
    and "''error'' \<notin> fst ` set d"
  then show "render lib (PDict d) = ([StError ''Unexpected response from backend.''], Inr ())"
    by (auto simp: render_def emit_def)
qed


theorem render_error_priority_witness:
  "\<not> (''probabilities'' \<in> fst ` set [(''labels'', PInt 7), (''error'', PStr ''model unavailable'')]
       \<and> ''labels'' \<in> fst ` set [(''labels'', PInt 7), (''error'', PStr ''model unavailable'')])
   \<and> map_of [(''labels'', PInt 7), (''error'', PStr ''model unavailable'')] ''error''
       = Some (PStr ''model unavailable'')
   \<and> render sample_library (PDict [(''labels'', PInt 7), (''error'', PStr ''model unavailable'')])
       = ([StError ''Backend Error: model unavailable''], Inr ())
   \<and> render sample_library
         (PDict [(''error'', PStr ''x''), (''labels'', PList []), (''probabilities'', PList [])])
       = ([StSuccess ''Analysis Complete!'', StSubheader ''Results:''], Inr ())
   \<and> render sample_library (PDict [(''status'', PStr ''ok'')])
       = ([StError ''Unexpected response from backend.''], Inr ())"
proof -
  have a: "render sample_library (PDict [(''labels'', PInt 7), (''error'', PStr ''model unavailable'')])
       = ([StError ''Backend Error: model unavailable''], Inr ())"
    using render_error_priority
      [where d = "[(''labels'', PInt 7), (''error'', PStr ''model unavailable'')]"
         and msg = "''model unavailable''" and lib = sample_library]
    by simp
  have b: "render sample_library
         (PDict [(''error'', PStr ''x''), (''labels'', PList []), (''probabilities'', PList [])])
       = ([StSuccess ''Analysis Complete!'', StSubheader ''Results:''], Inr ())"
    by (simp add: render_def)
  have c: "render sample_library (PDict [(''status'', PStr ''ok'')])
       = ([StError ''Unexpected response from backend.''], Inr ())"
    using render_error_priority
      [where d = "[(''status'', PStr ''ok'')]" and lib = sample_library]
    by simp
  show ?thesis using a b c by simp
qed

lemma format_example: 
  "format_2f (float_of_decimal (72345 / 1000)) = ''72.34''"
  "format_2f (float_of_decimal (27655 / 1000)) = ''27.66''"
  by code_simp+

lemmas format_example_reduced = format_example [simplified]

lemma render_example:
  "render lib
     (PDict [(''labels'', PList [PStr ''Grade 1'', PStr ''Grade 2'']),
             (''probabilities'', PList [PFloat (float_of_decimal (72345 / 1000)),
                                       PFloat (float_of_decimal (27655 / 1000))])])
   = ([StSuccess ''Analysis Complete!'', StSubheader ''Results:'',
       StMarkdown (result_line ''Grade 1'' ''72.34''),
       StMarkdown (result_line ''Grade 2'' ''27.66'')], Inr ())"
  using render_results
    [where d = "[(''labels'', PList [PStr ''Grade 1'', PStr ''Grade 2'']),
             (''probabilities'', PList [PFloat (float_of_decimal (72345 / 1000)),
                                       PFloat (float_of_decimal (27655 / 1000))])]"
       and ls = "[PStr ''Grade 1'', PStr ''Grade 2'']"
       and ps = "[PFloat (float_of_decimal (72345 / 1000)),
                  PFloat (float_of_decimal (27655 / 1000))]"
       and fs = "[float_of_decimal (72345 / 1000), float_of_decimal (27655 / 1000)]"
       and lib = lib]
  by (simp add: format_example_reduced)

text \<open>
  C6, as the script behaves. For a response with both keys, whose labels and
  probabilities are lists and whose paired probabilities \<^verbatim>\<open>float\<close> accepts, the display
  shows one line per pair in the order of the lists, \<^verbatim>\<open><b>label</b>: probability%\<close>.
  The probability is printed with two decimals, the printed number being the multiple
  of 0.01 nearest to the exact value of the double (ties to the even one). The double
  nearest to 72.345 lies below 72.345, so for the labels Grade 1, Grade 2 and the
  probabilities 72.345, 27.655 the lines are \<^verbatim>\<open>Grade 1: 72.34%\<close> and
  \<^verbatim>\<open>Grade 2: 27.66%\<close>.
\<close>

theorem render_results_two_decimals:
  "(map_of d ''labels'' = Some (PList ls) \<longrightarrow>
    map_of d ''probabilities'' = Some (PList ps) \<longrightarrow>
    map (py_float lib) (take (length ls) ps) = map Inr fs \<longrightarrow>
    render lib (PDict d) =
      ([StSuccess ''Analysis Complete!'', StSubheader ''Results:'']
       @ map (\<lambda>(l, f). StMarkdown (result_line (py_format lib l) (format_2f f))) (zip ls fs),
       Inr ()))
   \<and> (\<exists>n. format_2f (Finite s m) =
            (if s then ''-'' else []) @ str_nat (n div 100) @ ''.''
            @ [digit_char (n mod 100 div 10), digit_char (n mod 10)]
          \<and> \<bar>of_int n / 100 - m\<bar> \<le> 1 / 200)
   \<and> render lib
        (PDict [(''labels'', PList [PStr ''Grade 1'', PStr ''Grade 2'']),
                (''probabilities'', PList [PFloat (float_of_decimal (72345 / 1000)),
                                          PFloat (float_of_decimal (27655 / 1000))])])
      = ([StSuccess ''Analysis Complete!'', StSubheader ''Results:'',
          StMarkdown (result_line ''Grade 1'' ''72.34''),
          StMarkdown (result_line ''Grade 2'' ''27.66'')], Inr ())"
proof (intro conjI impI)
  assume "map_of d ''labels'' = Some (PList ls)"
    and "map_of d ''probabilities'' = Some (PList ps)"
    and "map (py_float lib) (take (length ls) ps) = map Inr fs"
  then show "render lib (PDict d) =
      ([StSuccess ''Analysis Complete!'', StSubheader ''Results:'']
       @ map (\<lambda>(l, f). StMarkdown (result_line (py_format lib l) (format_2f f))) (zip ls fs),
       Inr ())"
    by (rule render_results)
next
  have "\<bar>of_int (round_half_even (m * 100)) - m * 100\<bar> \<le> 1 / 2"
    by (rule round_half_even_near)
  then have "\<bar>of_int (round_half_even (m * 100)) / 100 - m\<bar> \<le> 1 / 200"
    by (simp add: field_simps)
  then show "\<exists>n. format_2f (Finite s m) =
            (if s then ''-'' else []) @ str_nat (n div 100) @ ''.''
            @ [digit_char (n mod 100 div 10), digit_char (n mod 10)]
          \<and> \<bar>of_int n / 100 - m\<bar> \<le> 1 / 200"
    by (intro exI [of _ "round_half_even (m * 100)"]) (simp add: Let_def)
next
  show "render lib
        (PDict [(''labels'', PList [PStr ''Grade 1'', PStr ''Grade 2'']),
                (''probabilities'', PList [PFloat (float_of_decimal (72345 / 1000)),
                                          PFloat (float_of_decimal (27655 / 1000))])])
      = ([StSuccess ''Analysis Complete!'', StSubheader ''Results:'',
          StMarkdown (result_line ''Grade 1'' ''72.34''),
          StMarkdown (result_line ''Grade 2'' ''27.66'')], Inr ())"
    by (rule render_example)
qed

lemma double_72345:
  "float_of_decimal (72345 / 1000) = Finite False (2545413398766551 / 35184372088832)"
  by code_simp

text \<open>
  The double that stands for 72.345 is smaller than 72.345, and the first line of the
  example is not \<^verbatim>\<open>Grade 1: 72.35%\<close>.
\<close>

theorem render_example_counterexample:
  "float_of_decimal (72345 / 1000) = Finite False (2545413398766551 / 35184372088832)
   \<and> (2545413398766551 / 35184372088832 :: rat) < 72345 / 1000
   \<and> render sample_library
        (PDict [(''labels'', PList [PStr ''Grade 1'', PStr ''Grade 2'']),
                (''probabilities'', PList [PFloat (float_of_decimal (72345 / 1000)),
                                          PFloat (float_of_decimal (27655 / 1000))])])
      \<noteq> ([StSuccess ''Analysis Complete!'', StSubheader ''Results:'',
          StMarkdown (result_line ''Grade 1'' ''72.35''),
          StMarkdown (result_line ''Grade 2'' ''27.66'')], Inr ())"
proof (intro conjI)
  show "float_of_decimal (72345 / 1000) = Finite False (2545413398766551 / 35184372088832)"
    by (rule double_72345)
  show "(2545413398766551 / 35184372088832 :: rat) < 72345 / 1000"
    by simp
  show "render sample_library
        (PDict [(''labels'', PList [PStr ''Grade 1'', PStr ''Grade 2'']),
                (''probabilities'', PList [PFloat (float_of_decimal (72345 / 1000)),
                                          PFloat (float_of_decimal (27655 / 1000))])])
      \<noteq> ([StSuccess ''Analysis Complete!'', StSubheader ''Results:'',
          StMarkdown (result_line ''Grade 1'' ''72.35''),
          StMarkdown (result_line ''Grade 2'' ''27.66'')], Inr ())"
    using render_example [of sample_library] by (simp add: result_line_def)
qed

lemma format_eighths:
  "format_2f (Finite False (1 / 8)) = ''0.12''"
  "format_2f (Finite False (799 / 8)) = ''99.88''"
  by code_simp+

theorem render_results_two_decimals_witness:
  "map_of [(''probabilities'', PList [PFloat (Finite False (1 / 8)), PFloat (Finite False (799 / 8))]),
           (''labels'', PList [PStr ''Grade 0'', PStr ''Grade 3''])] ''labels''
     = Some (PList [PStr ''Grade 0'', PStr ''Grade 3''])
   \<and> map (py_float sample_library)
         (take (length [PStr ''Grade 0'', PStr ''Grade 3''])
            [PFloat (Finite False (1 / 8)), PFloat (Finite False (799 / 8))])
     = map Inr [Finite False (1 / 8), Finite False (799 / 8)]
   \<and> render sample_library
         (PDict [(''probabilities'', PList [PFloat (Finite False (1 / 8)),
                                           PFloat (Finite False (799 / 8))]),
                 (''labels'', PList [PStr ''Grade 0'', PStr ''Grade 3''])])
     = ([StSuccess ''Analysis Complete!'', StSubheader ''Results:'',
         StMarkdown (result_line ''Grade 0'' ''0.12''),
         StMarkdown (result_line ''Grade 3'' ''99.88'')], Inr ())"
  using render_results_two_decimals
    [where d = "[(''probabilities'', PList [PFloat (Finite False (1 / 8)),
                                           PFloat (Finite False (799 / 8))]),
                 (''labels'', PList [PStr ''Grade 0'', PStr ''Grade 3''])]"
       and ls = "[PStr ''Grade 0'', PStr ''Grade 3'']"
       and ps = "[PFloat (Finite False (1 / 8)), PFloat (Finite False (799 / 8))]"
       and fs = "[Finite False (1 / 8), Finite False (799 / 8)]"
       and lib = sample_library, THEN conjunct1]
  by (simp del: format_2f.simps add: format_eighths)

lemma render_pairs_of_dict:
  assumes "map_of d ''labels'' = Some (PList ls)"
      and "map_of d ''probabilities'' = Some (PList ps)"
  shows "render lib (PDict d) =
           (StSuccess ''Analysis Complete!'' # StSubheader ''Results:''
            # fst (render_pairs lib (zip ls ps)), snd (render_pairs lib (zip ls ps)))"
proof -
  from assms(1) have ne: "d \<noteq> []" by auto
  from assms have keys: "''labels'' \<in> fst ` set d" "''probabilities'' \<in> fst ` set d"
    by (simp_all add: key_present)
  show ?thesis
    using ne keys assms by (simp add: render_def split: prod.splits)
qed

lemma zip_take_min:
  "zip (take (min (length ls) (length ps)) ls) (take (min (length ls) (length ps)) ps) = zip ls ps"
proof -
  have "zip (take (min (length ls) (length ps)) ls) (take (min (length ls) (length ps)) ps)
      = take (min (length ls) (length ps)) (zip ls ps)"
    by (simp only: take_zip)
  also have "\<dots> = zip ls ps"
    by simp
  finally show ?thesis .
qed

text \<open>
  C10, as the script behaves. When the two lists have different lengths the display
  treats the response as if both lists were cut to the length of the shorter one: the
  entries beyond it are never looked at. When \<^verbatim>\<open>float\<close> accepts every probability that
  is paired with a label, the display does not fail and shows exactly as many lines as
  the shorter list has entries.
\<close>

theorem render_unequal_lengths:
  "map_of d ''labels'' = Some (PList ls) \<longrightarrow>
   map_of d ''probabilities'' = Some (PList ps) \<longrightarrow>
   length ls \<noteq> length ps \<longrightarrow>
   render lib (PDict d) =
     render lib (PDict [(''labels'', PList (take (min (length ls) (length ps)) ls)),
                        (''probabilities'', PList (take (min (length ls) (length ps)) ps))])
   \<and> (map (py_float lib) (take (length ls) ps) = map Inr fs \<longrightarrow>
      (\<exists>lines.
         render lib (PDict d) =
           ([StSuccess ''Analysis Complete!'', StSubheader ''Results:''] @ map StMarkdown lines,
            Inr ())
         \<and> length lines = min (length ls) (length ps)
         \<and> lines = map (\<lambda>(l, f). result_line (py_format lib l) (format_2f f)) (zip ls fs)))"
proof (intro impI conjI)
  assume l: "map_of d ''labels'' = Some (PList ls)"
    and p: "map_of d ''probabilities'' = Some (PList ps)"
  let ?n = "min (length ls) (length ps)"
  have "render lib (PDict [(''labels'', PList (take ?n ls)), (''probabilities'', PList (take ?n ps))])
      = (StSuccess ''Analysis Complete!'' # StSubheader ''Results:''
         # fst (render_pairs lib (zip (take ?n ls) (take ?n ps))),
         snd (render_pairs lib (zip (take ?n ls) (take ?n ps))))"
    by (rule render_pairs_of_dict) simp_all
  then show "render lib (PDict d) =
     render lib (PDict [(''labels'', PList (take ?n ls)), (''probabilities'', PList (take ?n ps))])"
    by (simp only: render_pairs_of_dict [OF l p] zip_take_min)
next
  assume l: "map_of d ''labels'' = Some (PList ls)"
    and p: "map_of d ''probabilities'' = Some (PList ps)"
    and f: "map (py_float lib) (take (length ls) ps) = map Inr fs"
  let ?lines = "map (\<lambda>(l, f). result_line (py_format lib l) (format_2f f)) (zip ls fs)"
  have "length fs = min (length ls) (length ps)"
    using f by (rule zip_take_floats(1))
  then have n: "length ?lines = min (length ls) (length ps)"
    by simp
  have "map StMarkdown ?lines
      = map (\<lambda>(l, f). StMarkdown (result_line (py_format lib l) (format_2f f))) (zip ls fs)"
    by (simp add: case_prod_unfold)
  then have "render lib (PDict d) =
        ([StSuccess ''Analysis Complete!'', StSubheader ''Results:''] @ map StMarkdown ?lines,
         Inr ())"
    using render_results [OF l p f] by simp
  with n show "\<exists>lines.
      render lib (PDict d) =
        ([StSuccess ''Analysis Complete!'', StSubheader ''Results:''] @ map StMarkdown lines,
         Inr ())
      \<and> length lines = min (length ls) (length ps)
      \<and> lines = map (\<lambda>(l, f). result_line (py_format lib l) (format_2f f)) (zip ls fs)"
    by blast
qed

theorem render_unequal_lengths_witness:
  "length [PStr ''Grade 0'', PStr ''Grade 3'', PStr ''Grade 4'']
     \<noteq> length [PFloat (Finite False (1 / 8)), PFloat (Finite False (799 / 8))]
   \<and> render sample_library
         (PDict [(''labels'', PList [PStr ''Grade 0'', PStr ''Grade 3'', PStr ''Grade 4'']),
                 (''probabilities'', PList [PFloat (Finite False (1 / 8)),
                                           PFloat (Finite False (799 / 8))])])
     = ([StSuccess ''Analysis Complete!'', StSubheader ''Results:'',
         StMarkdown (result_line ''Grade 0'' ''0.12''),
         StMarkdown (result_line ''Grade 3'' ''99.88'')], Inr ())
   \<and> length [PStr ''Grade 0''] \<noteq> length [PFloat (Finite False (1 / 8)), PNone]
   \<and> render sample_library
         (PDict [(''labels'', PList [PStr ''Grade 0'']),
                 (''probabilities'', PList [PFloat (Finite False (1 / 8)), PNone])])
     = ([StSuccess ''Analysis Complete!'', StSubheader ''Results:'',
         StMarkdown (result_line ''Grade 0'' ''0.12'')], Inr ())"
proof -
  have a: "render sample_library
         (PDict [(''labels'', PList [PStr ''Grade 0'', PStr ''Grade 3'', PStr ''Grade 4'']),
                 (''probabilities'', PList [PFloat (Finite False (1 / 8)),
                                           PFloat (Finite False (799 / 8))])])
     = ([StSuccess ''Analysis Complete!'', StSubheader ''Results:'',
         StMarkdown (result_line ''Grade 0'' ''0.12''),
         StMarkdown (result_line ''Grade 3'' ''99.88'')], Inr ())"
    using render_unequal_lengths
      [where d = "[(''labels'', PList [PStr ''Grade 0'', PStr ''Grade 3'', PStr ''Grade 4'']),
                 (''probabilities'', PList [PFloat (Finite False (1 / 8)),
                                           PFloat (Finite False (799 / 8))])]"
         and ls = "[PStr ''Grade 0'', PStr ''Grade 3'', PStr ''Grade 4'']"
         and ps = "[PFloat (Finite False (1 / 8)), PFloat (Finite False (799 / 8))]"
         and fs = "[Finite False (1 / 8), Finite False (799 / 8)]"
         and lib = sample_library, rule_format, THEN conjunct2]
    by (simp del: format_2f.simps add: format_eighths)
  have b: "render sample_library
         (PDict [(''labels'', PList [PStr ''Grade 0'']),
                 (''probabilities'', PList [PFloat (Finite False (1 / 8)), PNone])])
     = ([StSuccess ''Analysis Complete!'', StSubheader ''Results:'',
         StMarkdown (result_line ''Grade 0'' ''0.12'')], Inr ())"
    using render_unequal_lengths
      [where d = "[(''labels'', PList [PStr ''Grade 0'']),
                 (''probabilities'', PList [PFloat (Finite False (1 / 8)), PNone])]"
         and ls = "[PStr ''Grade 0'']"
         and ps = "[PFloat (Finite False (1 / 8)), PNone]"
         and fs = "[Finite False (1 / 8)]"
         and lib = sample_library, rule_format, THEN conjunct2]
    by (simp del: format_2f.simps add: format_eighths)
  show ?thesis using a b by simp
qed

text \<open>
  Three labels and two probabilities, the second of them \<^verbatim>\<open>null\<close>: one line is shown,
  then \<^verbatim>\<open>float(None)\<close> raises and the display fails.
\<close>

theorem render_unequal_lengths_counterexample:
  "length [PStr ''Grade 0'', PStr ''Grade 3'', PStr ''Grade 4'']
     \<noteq> length [PFloat (Finite False (1 / 8)), PNone]
   \<and> render sample_library
         (PDict [(''labels'', PList [PStr ''Grade 0'', PStr ''Grade 3'', PStr ''Grade 4'']),
                 (''probabilities'', PList [PFloat (Finite False (1 / 8)), PNone])])
     = ([StSuccess ''Analysis Complete!'', StSubheader ''Results:'',
         StMarkdown (result_line ''Grade 0'' ''0.12'')], Inl TypeError)"
proof -
  have "render sample_library
         (PDict [(''labels'', PList [PStr ''Grade 0'', PStr ''Grade 3'', PStr ''Grade 4'']),
                 (''probabilities'', PList [PFloat (Finite False (1 / 8)), PNone])])
     = ([StSuccess ''Analysis Complete!'', StSubheader ''Results:'',
         StMarkdown (result_line ''Grade 0'' ''0.12'')], Inl TypeError)"
    using render_pairs_of_dict
      [where d = "[(''labels'', PList [PStr ''Grade 0'', PStr ''Grade 3'', PStr ''Grade 4'']),
                 (''probabilities'', PList [PFloat (Finite False (1 / 8)), PNone])]"
         and ls = "[PStr ''Grade 0'', PStr ''Grade 3'', PStr ''Grade 4'']"
         and ps = "[PFloat (Finite False (1 / 8)), PNone]"
         and lib = sample_library]
    by (simp del: format_2f.simps add: format_eighths)
  then show ?thesis by simp
qed

subsection \<open>Base64 decodes what it encoded\<close>

lemma length_b64chars: "length b64chars = 64"
  by (simp add: b64chars_def)

lemma distinct_b64chars: "distinct b64chars"
  by (simp add: b64chars_def)

lemma b64index_b64char: "i < 64 \<Longrightarrow> b64index (b64char i) = Some i"
proof -
  assume i: "i < 64"
  have "map_of (zip b64chars [0..<64]) (b64chars ! i) = Some ([0..<64] ! i)"
    by (rule map_of_zip_nth) (use i in \<open>simp_all add: length_b64chars distinct_b64chars\<close>)
  with i show ?thesis
    by (simp add: b64index_def b64char_def)
qed

lemma b64index_pad: "b64index CHR ''='' = None"
proof -
  have "CHR ''='' \<notin> set b64chars"
    by (simp add: b64chars_def)
  moreover have "map fst (zip b64chars [0..<64]) = b64chars"
    by (simp add: length_b64chars)
  then have "fst ` set (zip b64chars [0..<64]) = set b64chars"
    by (metis set_map)
  ultimately show ?thesis
    by (simp add: b64index_def map_of_eq_None_iff)
qed

lemma b64char_not_pad: "i < 64 \<Longrightarrow> b64char i \<noteq> CHR ''=''"
  using b64index_b64char b64index_pad by fastforce

lemma sextets:
  fixes n :: nat
  shows "n div 262144 * 262144 + n div 4096 mod 64 * 4096 + n div 64 mod 64 * 64 + n mod 64 = n"
proof -
  define a where "a = n div 64"
  define b where "b = a div 64"
  define X where "X = b div 64"
  define Y where "Y = b mod 64"
  define Z where "Z = a mod 64"
  define W where "W = n mod 64"
  have n: "n = a * 64 + W" by (simp add: a_def W_def)
  have a: "a = b * 64 + Z" by (simp add: b_def Z_def)
  have b: "b = X * 64 + Y" by (simp add: X_def Y_def)
  have d0: "n div 64 = a" by (simp add: a_def)
  have d1: "n div 4096 = b" unfolding b_def a_def by (simp add: div_mult2_eq [symmetric])
  have d2: "n div 262144 = X" unfolding X_def b_def a_def by (simp add: div_mult2_eq [symmetric])
  have "X * 262144 + Y * 4096 + Z * 64 + W = n"
    using n a b by linarith
  then show ?thesis
    unfolding d0 d1 d2 Y_def Z_def W_def .
qed

lemma sextet_bounds:
  fixes n :: nat
  assumes "n < 16777216"
  shows "n div 262144 < 64" "n div 4096 mod 64 < 64" "n div 64 mod 64 < 64" "n mod 64 < 64"
  using assms by simp_all

lemma bytes_of_triple:
  fixes x y z :: nat
  assumes "y < 256" "z < 256"
  shows "(x * 65536 + y * 256 + z) div 65536 = x"
    and "(x * 65536 + y * 256 + z) div 256 mod 256 = y"
    and "(x * 65536 + y * 256 + z) mod 256 = z"
proof -
  have "y * 256 + z < 65536" using assms by linarith
  then have "(y * 256 + z + x * 65536) div 65536 = x" by simp
  then show "(x * 65536 + y * 256 + z) div 65536 = x" by (simp add: ac_simps)
  have "(z + (x * 256 + y) * 256) div 256 = x * 256 + y" using assms by simp
  moreover have e: "z + (x * 256 + y) * 256 = x * 65536 + y * 256 + z" by simp
  ultimately have "(x * 65536 + y * 256 + z) div 256 = x * 256 + y" by simp
  then show "(x * 65536 + y * 256 + z) div 256 mod 256 = y" using assms by simp
  show "(x * 65536 + y * 256 + z) mod 256 = z"
    using assms by (simp only: e [symmetric] mod_mult_self1 mod_less)
qed

lemma unat_byte: "unat (a :: byte) < 256"
  using unsigned_less [of a, where 'a = nat] by simp

lemma triple_bound:
  fixes x y z :: nat
  assumes "x < 256" "y < 256" "z < 256"
  shows "x * 65536 + y * 256 + z < 16777216"
  using assms by linarith

lemma b64decode_quad:
  assumes "b64index c0 = Some s0" "b64index c1 = Some s1"
      and "b64index c2 = Some s2" "b64index c3 = Some s3"
      and "b64decode rest = Some bs"
  shows "b64decode (c0 # c1 # c2 # c3 # rest) =
     Some (of_nat ((s0 * 262144 + s1 * 4096 + s2 * 64 + s3) div 65536)
         # of_nat ((s0 * 262144 + s1 * 4096 + s2 * 64 + s3) div 256 mod 256)
         # of_nat ((s0 * 262144 + s1 * 4096 + s2 * 64 + s3) mod 256) # bs)"
proof -
  from assms(4) have "c3 \<noteq> CHR ''=''"
    using b64index_pad by auto
  with assms show ?thesis
    by (cases rest) (simp_all add: Let_def)
qed

lemma b64_quad:
  fixes a b c :: byte
  defines "n \<equiv> unat a * 65536 + unat b * 256 + unat c"
  assumes "b64decode rest = Some bs"
  shows "b64decode (b64char (n div 262144) # b64char (n div 4096 mod 64)
            # b64char (n div 64 mod 64) # b64char (n mod 64) # rest)
         = Some (a # b # c # bs)"
proof -
  have n: "n < 16777216"
    unfolding n_def by (rule triple_bound) (rule unat_byte)+
  note idx = sextet_bounds [OF n, THEN b64index_b64char]
  have "b64decode (b64char (n div 262144) # b64char (n div 4096 mod 64)
            # b64char (n div 64 mod 64) # b64char (n mod 64) # rest)
      = Some (of_nat (n div 65536) # of_nat (n div 256 mod 256) # of_nat (n mod 256) # bs)"
    using b64decode_quad [OF idx assms(2)] by (simp only: sextets)
  moreover have "n div 65536 = unat a" "n div 256 mod 256 = unat b" "n mod 256 = unat c"
    unfolding n_def by (rule bytes_of_triple; rule unat_byte)+
  ultimately show ?thesis by simp
qed


lemma low_sextets_zero:
  fixes x y :: nat
  shows "(x * 65536 + y * 256) mod 64 = 0"
    and "(x * 65536) mod 64 = 0"
    and "(x * 65536) div 64 mod 64 = 0"
proof -
  have e: "x * 65536 + y * 256 = (x * 1024 + y * 4) * 64" by simp
  show "(x * 65536 + y * 256) mod 64 = 0" by (simp only: e mod_mult_self2_is_0)
  have f: "x * 65536 = (x * 1024) * 64" by simp
  show "(x * 65536) mod 64 = 0" by (simp only: f mod_mult_self2_is_0)
  have "(x * 1024) * 64 div 64 = x * 16 * 64" by simp
  then show "(x * 65536) div 64 mod 64 = 0" by (simp only: f mod_mult_self2_is_0)
qed

lemma b64_single:
  fixes a :: byte
  defines "n \<equiv> unat a * 65536"
  shows "b64decode [b64char (n div 262144), b64char (n div 4096 mod 64), CHR ''='', CHR ''='']
         = Some [a]"
proof -
  have n3: "n = unat a * 65536 + 0 * 256 + 0" by (simp add: n_def)
  have n: "n < 16777216"
    unfolding n3 by (rule triple_bound) (simp_all add: unat_byte)
  note idx = sextet_bounds(1,2) [OF n, THEN b64index_b64char]
  have z: "n div 64 mod 64 = 0" "n mod 64 = 0"
    unfolding n_def by (rule low_sextets_zero)+
  have "n div 262144 * 262144 + n div 4096 mod 64 * 4096 = n"
    using sextets [of n] by (simp add: z)
  moreover have "n div 65536 = unat a"
    unfolding n3 by (rule bytes_of_triple) simp_all
  ultimately show ?thesis
    by (simp add: idx)
qed

lemma b64_double:
  fixes a b :: byte
  defines "n \<equiv> unat a * 65536 + unat b * 256"
  shows "b64decode [b64char (n div 262144), b64char (n div 4096 mod 64),
                    b64char (n div 64 mod 64), CHR ''='']
         = Some [a, b]"
proof -
  have n3: "n = unat a * 65536 + unat b * 256 + 0" by (simp add: n_def)
  have n: "n < 16777216"
    unfolding n3 by (rule triple_bound) (simp_all add: unat_byte)
  note idx = sextet_bounds(1,2,3) [OF n, THEN b64index_b64char]
  note np = sextet_bounds(3) [OF n, THEN b64char_not_pad]
  have z: "n mod 64 = 0"
    unfolding n_def by (rule low_sextets_zero)
  have "n div 262144 * 262144 + n div 4096 mod 64 * 4096 + n div 64 mod 64 * 64 = n"
    using sextets [of n] by (simp add: z)
  moreover have "n div 65536 = unat a" "n div 256 mod 256 = unat b"
    unfolding n3 by (rule bytes_of_triple; simp add: unat_byte)+
  ultimately show ?thesis
    by (simp add: idx np Let_def)
qed

lemma b64decode_b64encode: "b64decode (b64encode bs) = Some bs"
proof (induction bs rule: b64encode.induct)
  case 1
  show ?case by simp
next
  case (2 a)
  show ?case using b64_single [of a] by (simp add: Let_def)
next
  case (3 a b)
  show ?case using b64_double [of a b] by (simp add: Let_def)
next
  case (4 a b c rest)
  show ?case using b64_quad [OF "4.IH", where a = a and b = b and c = c] by (simp add: Let_def)
qed

subsection \<open>Preprocessing\<close>

lemma shape_resize: "is_size w h (pil_resize lib img (w, h))"
  by (simp add: is_size_def pil_resize_def comp_def map_replicate_const)

lemma shape_clahe: "map length (clahe_apply lib c src) = map length src"
proof -
  have "map length (clahe_apply lib c src) = map (\<lambda>y. length (src ! y)) [0..<length src]"
    by (simp add: clahe_apply_def comp_def)
  also have "\<dots> = map length (map (\<lambda>y. src ! y) [0..<length src])"
    by (simp add: comp_def)
  also have "\<dots> = map length src"
    by (simp only: map_nth)
  finally show ?thesis .
qed

lemma shape_cvtColor: "map length (cvtColor m code) = map length m"
  by (cases code) (simp_all add: comp_def)

lemma shape_split:
  "map length (fst (cv2_split m)) = map length m"
  "map length (fst (snd (cv2_split m))) = map length m"
  "map length (snd (snd (cv2_split m))) = map length m"
  by (simp_all add: cv2_split_def comp_def)

lemma split_cvtColor:
  "cv2_split (cvtColor m code) =
     (snd (snd (cv2_split m)), fst (snd (cv2_split m)), fst (cv2_split m))"
  by (cases code) (simp_all add: cv2_split_def comp_def case_prod_unfold)

declare cvtColor.simps [simp del]

lemma zip3_rows:
  assumes "length r0 = length r1" "length r1 = length r2"
  shows "map (\<lambda>(c0, c1, c2). c0) (zip r0 (zip r1 r2)) = r0"
    and "map (\<lambda>(c0, c1, c2). c1) (zip r0 (zip r1 r2)) = r1"
    and "map (\<lambda>(c0, c1, c2). c2) (zip r0 (zip r1 r2)) = r2"
proof -
  have l: "length r0 = length (zip r1 r2)" using assms by simp
  have "map (\<lambda>(c0, c1, c2). c0) (zip r0 (zip r1 r2)) = map fst (zip r0 (zip r1 r2))"
    by (simp add: case_prod_unfold)
  then show "map (\<lambda>(c0, c1, c2). c0) (zip r0 (zip r1 r2)) = r0"
    using l by simp
  have "map (\<lambda>(c0, c1, c2). c1) (zip r0 (zip r1 r2)) = map fst (map snd (zip r0 (zip r1 r2)))"
    by (simp add: case_prod_unfold comp_def)
  then show "map (\<lambda>(c0, c1, c2). c1) (zip r0 (zip r1 r2)) = r1"
    using l assms by simp
  have "map (\<lambda>(c0, c1, c2). c2) (zip r0 (zip r1 r2)) = map snd (map snd (zip r0 (zip r1 r2)))"
    by (simp add: case_prod_unfold comp_def)
  then show "map (\<lambda>(c0, c1, c2). c2) (zip r0 (zip r1 r2)) = r2"
    using l assms by simp
qed

lemma split_merge:
  "map length p0 = map length p1 \<Longrightarrow> map length p1 = map length p2 \<Longrightarrow>
   cv2_split (merge_planes p0 p1 p2) = (p0, p1, p2)"
proof (induction p0 arbitrary: p1 p2)
  case Nil
  then show ?case by (simp add: cv2_split_def merge_planes_def)
next
  case (Cons r0 p0)
  from Cons.prems obtain r1 q1 where p1: "p1 = r1 # q1" by (cases p1) auto
  from Cons.prems p1 obtain r2 q2 where p2: "p2 = r2 # q2" by (cases p2) auto
  from Cons.prems p1 p2 have len: "length r0 = length r1" "length r1 = length r2"
    and rest: "map length p0 = map length q1" "map length q1 = map length q2"
    by auto
  from Cons.IH [OF rest] zip3_rows [OF len] show ?case
    by (simp add: p1 p2 cv2_split_def merge_planes_def)
qed

lemma shape_merge:
  "map length p0 = map length p1 \<Longrightarrow> map length p1 = map length p2 \<Longrightarrow>
   map length (merge_planes p0 p1 p2) = map length p0"
  using shape_split(1) [of "merge_planes p0 p1 p2"] by (simp add: split_merge)

lemma cv2_merge_same_shape:
  "map length p0 = map length p1 \<Longrightarrow> map length p1 = map length p2 \<Longrightarrow>
   cv2_merge (p0, p1, p2) = Inr (merge_planes p0 p1 p2)"
  by (simp add: cv2_merge_def merge_planes_def)


lemma process_image_fails:
  "convert_rgb lib raw = Inl e \<Longrightarrow> process_image lib raw = Inl e"
  by (simp add: process_image_def)

lemma process_image_spec:
  assumes "convert_rgb lib raw = Inr rgb"
  shows "process_image lib raw = Inr (snd (spec_preprocess lib rgb), fst (spec_preprocess lib rgb))"
proof -
  define resized where "resized = pil_resize lib rgb (224, 224)"
  define cl where "cl = \<lparr>clipLimit = 2, tileGridSize = (8 :: nat, 8 :: nat)\<rparr>"
  obtain b g r where s: "cv2_split (cvtColor resized COLOR_RGB2BGR) = (b, g, r)"
    by (cases "cv2_split (cvtColor resized COLOR_RGB2BGR)") auto
  have "map length b = map length resized" "map length g = map length resized"
    "map length r = map length resized"
    using shape_split [of "cvtColor resized COLOR_RGB2BGR"] by (simp_all add: s shape_cvtColor)
  then have "map length (clahe_apply lib cl b) = map length (clahe_apply lib cl g)"
    and "map length (clahe_apply lib cl g) = map length (clahe_apply lib cl r)"
    by (simp_all add: shape_clahe)
  then have m: "cv2_merge (clahe_apply lib cl b, clahe_apply lib cl g, clahe_apply lib cl r)
      = Inr (merge_planes (clahe_apply lib cl b) (clahe_apply lib cl g) (clahe_apply lib cl r))"
    by (rule cv2_merge_same_shape)
  show ?thesis
    using s m
    by (simp add: assms process_image_def spec_preprocess_def Let_def np_array_def
        Image_fromarray_def createCLAHE_def resized_def [symmetric] cl_def [symmetric])
qed

lemma spec_preprocess_channels:
  fixes lib :: "'raw library"
  defines "cl \<equiv> \<lparr>clipLimit = 2, tileGridSize = (8 :: nat, 8 :: nat)\<rparr>"
  shows "cv2_split (fst (spec_preprocess lib rgb)) =
     (clahe_apply lib cl (fst (cv2_split (snd (spec_preprocess lib rgb)))),
      clahe_apply lib cl (fst (snd (cv2_split (snd (spec_preprocess lib rgb))))),
      clahe_apply lib cl (snd (snd (cv2_split (snd (spec_preprocess lib rgb))))))"
proof -
  define resized where "resized = pil_resize lib rgb (224, 224)"
  obtain p0 p1 p2 where s: "cv2_split resized = (p0, p1, p2)"
    by (cases "cv2_split resized") auto
  have sw: "cv2_split (cvtColor resized COLOR_RGB2BGR) = (p2, p1, p0)"
    by (simp add: split_cvtColor s)
  have "map length p0 = map length resized" "map length p1 = map length resized"
    "map length p2 = map length resized"
    using shape_split [of resized] by (simp_all add: s)
  then have sh: "map length (clahe_apply lib cl p2) = map length (clahe_apply lib cl p1)"
    "map length (clahe_apply lib cl p1) = map length (clahe_apply lib cl p0)"
    by (simp_all add: shape_clahe)
  have r: "snd (spec_preprocess lib rgb) = resized"
    by (simp add: spec_preprocess_def Let_def resized_def case_prod_unfold)
  have o: "fst (spec_preprocess lib rgb) =
      cvtColor (merge_planes (clahe_apply lib cl p2) (clahe_apply lib cl p1)
                  (clahe_apply lib cl p0)) COLOR_BGR2RGB"
    using sw by (simp add: spec_preprocess_def Let_def resized_def [symmetric] cl_def)
  show ?thesis
    unfolding r o by (simp add: split_cvtColor split_merge [OF sh] s)
qed

lemma spec_preprocess_sizes:
  "snd (spec_preprocess lib rgb) = pil_resize lib rgb (224, 224)"
  "is_size 224 224 (snd (spec_preprocess lib rgb))"
  "is_size 224 224 (fst (spec_preprocess lib rgb))"
proof -
  show r: "snd (spec_preprocess lib rgb) = pil_resize lib rgb (224, 224)"
    by (simp add: spec_preprocess_def Let_def case_prod_unfold)
  show z: "is_size 224 224 (snd (spec_preprocess lib rgb))"
    unfolding r by (rule shape_resize)
  have "map length (fst (spec_preprocess lib rgb))
      = map length (fst (cv2_split (fst (spec_preprocess lib rgb))))"
    by (simp add: shape_split)
  also have "\<dots> = map length (snd (spec_preprocess lib rgb))"
    by (simp add: spec_preprocess_channels shape_clahe shape_split)
  finally show "is_size 224 224 (fst (spec_preprocess lib rgb))"
    using z by (simp add: is_size_def)
qed

text \<open>
  C3. On every decodable image, one that \<^verbatim>\<open>image.convert("RGB")\<close> turns into an RGB image
  \<open>rgb\<close>, \<^verbatim>\<open>process_image\<close> returns, and what it returns is what the steps give when done
  in order: convert to RGB, resize to 224 by 224, RGB to BGR, split, CLAHE with clip limit
  2.0 and an 8 by 8 grid on each plane, merge in BGR order, BGR to RGB. Both images of the
  result are 224 by 224 and RGB: the resized one that was not equalised, and the equalised
  one, whose red, green and blue planes are the equalised red, green and blue planes of
  the resized image. On an image that cannot be decoded \<^verbatim>\<open>process_image\<close> raises what
  the conversion raised.
\<close>

theorem process_image_steps:
  "(convert_rgb lib raw = Inr rgb \<longrightarrow>
     (\<exists>resized out.
        process_image lib raw = Inr (resized, out)
        \<and> (out, resized) = spec_preprocess lib rgb
        \<and> resized = pil_resize lib rgb (224, 224)
        \<and> is_size 224 224 resized
        \<and> is_size 224 224 out
        \<and> cv2_split out =
            (clahe_apply lib \<lparr>clipLimit = 2, tileGridSize = (8, 8)\<rparr> (fst (cv2_split resized)),
             clahe_apply lib \<lparr>clipLimit = 2, tileGridSize = (8, 8)\<rparr>
               (fst (snd (cv2_split resized))),
             clahe_apply lib \<lparr>clipLimit = 2, tileGridSize = (8, 8)\<rparr>
               (snd (snd (cv2_split resized))))))
   \<and> (convert_rgb lib raw = Inl e \<longrightarrow> process_image lib raw = Inl e)"
proof (intro conjI impI)
  assume c: "convert_rgb lib raw = Inr rgb"
  show "\<exists>resized out.
        process_image lib raw = Inr (resized, out)
        \<and> (out, resized) = spec_preprocess lib rgb
        \<and> resized = pil_resize lib rgb (224, 224)
        \<and> is_size 224 224 resized
        \<and> is_size 224 224 out
        \<and> cv2_split out =
            (clahe_apply lib \<lparr>clipLimit = 2, tileGridSize = (8, 8)\<rparr> (fst (cv2_split resized)),
             clahe_apply lib \<lparr>clipLimit = 2, tileGridSize = (8, 8)\<rparr>
               (fst (snd (cv2_split resized))),
             clahe_apply lib \<lparr>clipLimit = 2, tileGridSize = (8, 8)\<rparr>
               (snd (snd (cv2_split resized))))"
  proof (intro exI conjI)
    show "process_image lib raw
        = Inr (snd (spec_preprocess lib rgb), fst (spec_preprocess lib rgb))"
      using c by (rule process_image_spec)
    show "(fst (spec_preprocess lib rgb), snd (spec_preprocess lib rgb)) = spec_preprocess lib rgb"
      by simp
  qed (rule spec_preprocess_sizes spec_preprocess_channels)+
next
  assume "convert_rgb lib raw = Inl e"
  then show "process_image lib raw = Inl e"
    by (rule process_image_fails)
qed

lemma sample_convert:
  "convert_rgb sample_library [3, 10, 20, 30] = Inr [[(10, 10, 10), (20, 20, 20), (30, 30, 30)]]"
  "convert_rgb sample_library [3, 10] = Inl (OSError ''image file is truncated'')"
  by (simp_all add: sample_library_def)

theorem process_image_steps_witness:
  "convert_rgb sample_library [3, 10, 20, 30] = Inr [[(10, 10, 10), (20, 20, 20), (30, 30, 30)]]
   \<and> (\<exists>resized out.
        process_image sample_library [3, 10, 20, 30] = Inr (resized, out)
        \<and> (out, resized)
            = spec_preprocess sample_library [[(10, 10, 10), (20, 20, 20), (30, 30, 30)]]
        \<and> is_size 224 224 resized
        \<and> is_size 224 224 out)
   \<and> convert_rgb sample_library [3, 10] = Inl (OSError ''image file is truncated'')
   \<and> process_image sample_library [3, 10] = Inl (OSError ''image file is truncated'')"
proof -
  have a: "\<exists>resized out.
        process_image sample_library [3, 10, 20, 30] = Inr (resized, out)
        \<and> (out, resized)
            = spec_preprocess sample_library [[(10, 10, 10), (20, 20, 20), (30, 30, 30)]]
        \<and> is_size 224 224 resized
        \<and> is_size 224 224 out"
    using process_image_steps
      [where lib = sample_library and raw = "[3, 10, 20, 30]"
         and rgb = "[[(10, 10, 10), (20, 20, 20), (30, 30, 30)]]", THEN conjunct1, rule_format,
        OF sample_convert(1)]
    by blast
  have b: "process_image sample_library [3, 10] = Inl (OSError ''image file is truncated'')"
    using process_image_steps
      [where lib = sample_library and raw = "[3, 10]"
         and e = "OSError ''image file is truncated''", THEN conjunct2, rule_format,
        OF sample_convert(2)] .
  show ?thesis using a b sample_convert by simp
qed

subsection \<open>The request\<close>

lemma predict_image_posts:
  "filter is_post (fst (predict_image lib img)) = [HttpPost predict_url (request_body lib img)]"
  by (simp add: predict_image_def Let_def split: sum.splits)

lemma no_post_and_then:
  assumes "filter is_post (fst m) = []" and "\<And>x. filter is_post (fst (f x)) = []"
  shows "filter is_post (fst (and_then m f)) = []"
proof (cases m)
  case (Pair es r)
  show ?thesis
  proof (cases r)
    case (Inl e)
    with Pair assms(1) show ?thesis by (simp add: and_then_def)
  next
    case (Inr x)
    obtain es' r' where fx: "f x = (es', r')" by (cases "f x")
    with assms(2) [of x] have "filter is_post es' = []" by simp
    with Pair Inr fx assms(1) show ?thesis by (simp add: and_then_def)
  qed
qed

lemma no_post_lift: "filter is_post (fst (lift r)) = []"
  by (simp add: lift_def)

lemma render_pairs_no_post: "filter is_post (fst (render_pairs lib pairs)) = []"
proof -
  have "\<not> is_post e" if "e \<in> set (fst (render_pairs lib pairs))" for e
    using render_pairs_markdown [OF that] by auto
  then show ?thesis by (simp add: filter_empty_conv)
qed

lemma render_no_post: "filter is_post (fst (render lib v)) = []"
  unfolding render_def
  by (auto intro!: no_post_and_then simp: no_post_lift render_pairs_no_post emit_def)

lemma and_then_events:
  "and_then (case m of (es, x) \<Rightarrow> (es, Inr x)) f = (fst m @ fst (f (snd m)), snd (f (snd m)))"
  by (cases m) (simp add: and_then_def split: prod.splits)

lemma main_valid:
  assumes "missing f = []" "uploaded_file f = Some upload" "image_open lib upload = Inr raw"
    and "process_image lib raw = Inr (resized, out)"
  shows "main lib True f =
     (SpinnerEnter ''Processing image and generating prediction...''
      # StImage out ''Processed Image''
      # fst (predict_image lib out) @ fst (render lib (snd (predict_image lib out)))
      @ [SpinnerExit],
      snd (render lib (snd (predict_image lib out))))"
  using assms
  by (simp add: main_def with_spinner_def and_then_events)

text \<open>
  C4, as the script behaves. For a valid submission (nothing missing) whose uploaded file
  can be decoded, which means that \<^verbatim>\<open>Image.open\<close> identifies it and
  \<^verbatim>\<open>image.convert("RGB")\<close> reads its pixels, exactly one HTTP POST is made, to the fixed
  URL; its JSON body is an object with the single key \<^verbatim>\<open>file\<close>, and the value of that
  key decodes from base64 to the PNG bytes of the processed 224 by 224 image.
\<close>

theorem valid_submission_one_post:
  "missing f = [] \<longrightarrow> uploaded_file f = Some upload \<longrightarrow> image_open lib upload = Inr raw \<longrightarrow>
   convert_rgb lib raw = Inr rgb \<longrightarrow>
   (\<exists>resized processed.
      process_image lib raw = Inr (resized, processed)
      \<and> is_size 224 224 processed
      \<and> filter is_post (fst (main lib True f))
          = [HttpPost predict_url
               (PDict [(''file'', PStr (b64encode (png_encode lib processed)))])]
      \<and> b64decode (b64encode (png_encode lib processed)) = Some (png_encode lib processed))"
proof (intro impI)
  assume v: "missing f = []" and u: "uploaded_file f = Some upload"
    and o: "image_open lib upload = Inr raw" and c: "convert_rgb lib raw = Inr rgb"
  let ?resized = "snd (spec_preprocess lib rgb)"
  let ?out = "fst (spec_preprocess lib rgb)"
  have p: "process_image lib raw = Inr (?resized, ?out)"
    using c by (rule process_image_spec)
  have "filter is_post (fst (main lib True f)) = [HttpPost predict_url (request_body lib ?out)]"
    by (simp add: main_valid [OF v u o p] predict_image_posts render_no_post)
  with p show "\<exists>resized processed.
      process_image lib raw = Inr (resized, processed)
      \<and> is_size 224 224 processed
      \<and> filter is_post (fst (main lib True f))
          = [HttpPost predict_url
               (PDict [(''file'', PStr (b64encode (png_encode lib processed)))])]
      \<and> b64decode (b64encode (png_encode lib processed)) = Some (png_encode lib processed)"
    using spec_preprocess_sizes(3) [of lib rgb] b64decode_b64encode by blast
qed

lemma missing_sample_form [simp]: "missing (sample_form\<lparr>uploaded_file := Some upload\<rparr>) = []"
  by (simp add: missing_def sample_form_def)

theorem valid_submission_one_post_witness:
  "missing (sample_form\<lparr>uploaded_file := Some [3, 10, 20, 30]\<rparr>) = []
   \<and> uploaded_file (sample_form\<lparr>uploaded_file := Some [3, 10, 20, 30]\<rparr>) = Some [3, 10, 20, 30]
   \<and> image_open sample_library [3, 10, 20, 30] = Inr [3, 10, 20, 30]
   \<and> convert_rgb sample_library [3, 10, 20, 30]
       = Inr [[(10, 10, 10), (20, 20, 20), (30, 30, 30)]]
   \<and> (\<exists>resized processed.
        process_image sample_library [3, 10, 20, 30] = Inr (resized, processed)
        \<and> is_size 224 224 processed
        \<and> filter is_post
             (fst (main sample_library True
                     (sample_form\<lparr>uploaded_file := Some [3, 10, 20, 30]\<rparr>)))
            = [HttpPost predict_url
                 (PDict [(''file'', PStr (b64encode (png_encode sample_library processed)))])]
        \<and> b64decode (b64encode (png_encode sample_library processed))
            = Some (png_encode sample_library processed))"
proof -
  have o: "image_open sample_library [3, 10, 20, 30] = Inr [3, 10, 20, 30]"
    by (simp add: sample_library_def)
  show ?thesis
    using valid_submission_one_post
      [where f = "sample_form\<lparr>uploaded_file := Some [3, 10, 20, 30]\<rparr>"
         and upload = "[3, 10, 20, 30]" and lib = sample_library and raw = "[3, 10, 20, 30]"
         and rgb = "[[(10, 10, 10), (20, 20, 20), (30, 30, 30)]]"]
    by (simp add: o sample_convert)
qed

text \<open>
  Two valid submissions after which nothing is sent: a file that \<^verbatim>\<open>Image.open\<close> cannot
  identify, and a file that is identified and whose pixel data is truncated, so that the
  conversion on line 69 raises. Either exception leaves the handler before
  \<^verbatim>\<open>predict_image\<close> is called.
\<close>

theorem valid_submission_undecodable_counterexample:
  "missing (sample_form\<lparr>uploaded_file := Some []\<rparr>) = []
   \<and> main sample_library True (sample_form\<lparr>uploaded_file := Some []\<rparr>)
       = ([SpinnerEnter ''Processing image and generating prediction...'', SpinnerExit],
          Inl (ImageError ''cannot identify image file''))
   \<and> filter is_post (fst (main sample_library True (sample_form\<lparr>uploaded_file := Some []\<rparr>)))
       = []
   \<and> missing (sample_form\<lparr>uploaded_file := Some [3, 10]\<rparr>) = []
   \<and> image_open sample_library [3, 10] = Inr [3, 10]
   \<and> main sample_library True (sample_form\<lparr>uploaded_file := Some [3, 10]\<rparr>)
       = ([SpinnerEnter ''Processing image and generating prediction...'', SpinnerExit],
          Inl (OSError ''image file is truncated''))
   \<and> filter is_post
        (fst (main sample_library True (sample_form\<lparr>uploaded_file := Some [3, 10]\<rparr>)))
       = []"
proof -
  have a: "main sample_library True (sample_form\<lparr>uploaded_file := Some []\<rparr>)
       = ([SpinnerEnter ''Processing image and generating prediction...'', SpinnerExit],
          Inl (ImageError ''cannot identify image file''))"
    by (simp add: main_def with_spinner_def) (simp add: sample_library_def)
  have o: "image_open sample_library [3, 10] = Inr [3, 10]"
    by (simp add: sample_library_def)
  have b: "main sample_library True (sample_form\<lparr>uploaded_file := Some [3, 10]\<rparr>)
       = ([SpinnerEnter ''Processing image and generating prediction...'', SpinnerExit],
          Inl (OSError ''image file is truncated''))"
    by (simp add: main_def with_spinner_def o process_image_fails [OF sample_convert(2)])
  show ?thesis using a b o by simp
qed

text \<open>
  C5, as the script behaves. \<^verbatim>\<open>predict_image\<close> shows \<^verbatim>\<open>Prediction API Error:\<close> with
  the text of the exception and returns \<^verbatim>\<open>None\<close> in three cases: \<^verbatim>\<open>requests.post\<close>
  raises; the status is one that \<^verbatim>\<open>raise_for_status\<close> rejects, which are the codes 400
  to 599; the body is not JSON. After \<^verbatim>\<open>None\<close> the handler displays nothing more. In
  every other case, whatever the status, the parsed body is returned as it is and no
  message is shown.
\<close>

theorem predict_image_outcomes:
  "(requests_post lib predict_url (request_body lib img) = Raised e \<longrightarrow>
      predict_image lib img =
        ([HttpPost predict_url (request_body lib img),
          StError (''Prediction API Error: '' @ e)], PNone))
   \<and> (requests_post lib predict_url (request_body lib img) = Responded r \<longrightarrow>
      400 \<le> status_code r \<longrightarrow> status_code r < 600 \<longrightarrow>
      (\<exists>msg. raise_for_status r = Some msg
         \<and> predict_image lib img =
             ([HttpPost predict_url (request_body lib img),
               StError (''Prediction API Error: '' @ msg)], PNone)))
   \<and> (requests_post lib predict_url (request_body lib img) = Responded r \<longrightarrow>
      \<not> (400 \<le> status_code r \<and> status_code r < 600) \<longrightarrow>
      json_decode lib (content r) = Inl e \<longrightarrow>
      predict_image lib img =
        ([HttpPost predict_url (request_body lib img),
          StError (''Prediction API Error: '' @ e)], PNone))
   \<and> (requests_post lib predict_url (request_body lib img) = Responded r \<longrightarrow>
      \<not> (400 \<le> status_code r \<and> status_code r < 600) \<longrightarrow>
      json_decode lib (content r) = Inr v \<longrightarrow>
      predict_image lib img = ([HttpPost predict_url (request_body lib img)], v))
   \<and> render lib PNone = ([], Inr ())"
proof (intro conjI impI)
  show "render lib PNone = ([], Inr ())"
    by (simp add: render_def)
next
  assume "requests_post lib predict_url (request_body lib img) = Raised e"
  then show "predict_image lib img =
        ([HttpPost predict_url (request_body lib img),
          StError (''Prediction API Error: '' @ e)], PNone)"
    by (simp add: predict_image_def try_post_def Let_def)
next
  assume r: "requests_post lib predict_url (request_body lib img) = Responded r"
    and "400 \<le> status_code r" "status_code r < 600"
  then have "raise_for_status r \<noteq> None"
    by (simp add: raise_for_status_def)
  then obtain msg where m: "raise_for_status r = Some msg"
    by blast
  with r have "predict_image lib img =
             ([HttpPost predict_url (request_body lib img),
               StError (''Prediction API Error: '' @ msg)], PNone)"
    by (simp add: predict_image_def try_post_def Let_def)
  with m show "\<exists>msg. raise_for_status r = Some msg
         \<and> predict_image lib img =
             ([HttpPost predict_url (request_body lib img),
               StError (''Prediction API Error: '' @ msg)], PNone)"
    by blast
next
  assume "requests_post lib predict_url (request_body lib img) = Responded r"
    and "\<not> (400 \<le> status_code r \<and> status_code r < 600)"
    and "json_decode lib (content r) = Inl e"
  then show "predict_image lib img =
        ([HttpPost predict_url (request_body lib img),
          StError (''Prediction API Error: '' @ e)], PNone)"
    by (auto simp: predict_image_def try_post_def raise_for_status_def Let_def)
next
  assume "requests_post lib predict_url (request_body lib img) = Responded r"
    and "\<not> (400 \<le> status_code r \<and> status_code r < 600)"
    and "json_decode lib (content r) = Inr v"
  then show "predict_image lib img = ([HttpPost predict_url (request_body lib img)], v)"
    by (auto simp: predict_image_def try_post_def raise_for_status_def Let_def)
qed

lemma sample_request_body:
  "b64encode (png_encode sample_library [[(1, 2, 3)]]) = ''AQID''"
  by (simp add: sample_library_def b64char_def b64chars_def)

lemma str_int_503: "str_int 503 = ''503''"
  by code_simp

theorem predict_image_outcomes_witness:
  "predict_image
     (sample_library\<lparr>requests_post := \<lambda>u body. Raised ''Connection refused''\<rparr>) [[(1, 2, 3)]]
     = ([HttpPost predict_url (PDict [(''file'', PStr ''AQID'')]),
         StError ''Prediction API Error: Connection refused''], PNone)
   \<and> predict_image
       (sample_library\<lparr>requests_post := \<lambda>u body. Responded
          \<lparr>status_code = 503, reason = ''Service Unavailable'', url = u, content = ''{}''\<rparr>\<rparr>)
       [[(1, 2, 3)]]
     = ([HttpPost predict_url (PDict [(''file'', PStr ''AQID'')]),
         StError (''Prediction API Error: 503 Server Error: Service Unavailable for url: ''
                  @ predict_url)], PNone)
   \<and> predict_image
       (sample_library\<lparr>requests_post := \<lambda>u body. Responded
          \<lparr>status_code = 200, reason = ''OK'', url = u, content = ''<html>''\<rparr>\<rparr>)
       [[(1, 2, 3)]]
     = ([HttpPost predict_url (PDict [(''file'', PStr ''AQID'')]),
         StError ''Prediction API Error: Expecting value''], PNone)
   \<and> predict_image
       (sample_library\<lparr>requests_post := \<lambda>u body. Responded
          \<lparr>status_code = 200, reason = ''OK'', url = u, content = ''{}''\<rparr>\<rparr>)
       [[(1, 2, 3)]]
     = ([HttpPost predict_url (PDict [(''file'', PStr ''AQID'')])], PDict [])"
proof -
  let ?img = "[[(1, 2, 3)]] :: array3"
  let ?L1 = "sample_library\<lparr>requests_post := \<lambda>u body. Raised ''Connection refused''\<rparr>"
  let ?r2 = "\<lparr>status_code = 503, reason = ''Service Unavailable'', url = predict_url,
              content = ''{}''\<rparr>"
  let ?L2 = "sample_library\<lparr>requests_post := \<lambda>u body. Responded
          \<lparr>status_code = 503, reason = ''Service Unavailable'', url = u, content = ''{}''\<rparr>\<rparr>"
  let ?r3 = "\<lparr>status_code = 200, reason = ''OK'', url = predict_url, content = ''<html>''\<rparr>"
  let ?L3 = "sample_library\<lparr>requests_post := \<lambda>u body. Responded
          \<lparr>status_code = 200, reason = ''OK'', url = u, content = ''<html>''\<rparr>\<rparr>"
  let ?r4 = "\<lparr>status_code = 200, reason = ''OK'', url = predict_url, content = ''{}''\<rparr>"
  let ?L4 = "sample_library\<lparr>requests_post := \<lambda>u body. Responded
          \<lparr>status_code = 200, reason = ''OK'', url = u, content = ''{}''\<rparr>\<rparr>"
  have a: "predict_image ?L1 ?img
     = ([HttpPost predict_url (PDict [(''file'', PStr ''AQID'')]),
         StError ''Prediction API Error: Connection refused''], PNone)"
    using predict_image_outcomes
      [where lib = ?L1 and img = ?img and e = "''Connection refused''", THEN conjunct1]
    by (simp add: sample_request_body)
  have b: "predict_image ?L2 ?img
     = ([HttpPost predict_url (PDict [(''file'', PStr ''AQID'')]),
         StError (''Prediction API Error: 503 Server Error: Service Unavailable for url: ''
                  @ predict_url)], PNone)"
    using predict_image_outcomes
      [where lib = ?L2 and img = ?img and r = ?r2, THEN conjunct2, THEN conjunct1]
    by (simp add: sample_request_body raise_for_status_def str_int_503)
  have c: "predict_image ?L3 ?img
     = ([HttpPost predict_url (PDict [(''file'', PStr ''AQID'')]),
         StError ''Prediction API Error: Expecting value''], PNone)"
    using predict_image_outcomes
      [where lib = ?L3 and img = ?img and r = ?r3 and e = "''Expecting value''",
        THEN conjunct2, THEN conjunct2, THEN conjunct1]
    by (simp add: sample_request_body) (simp add: sample_library_def)
  have d: "predict_image ?L4 ?img
     = ([HttpPost predict_url (PDict [(''file'', PStr ''AQID'')])], PDict [])"
    using predict_image_outcomes
      [where lib = ?L4 and img = ?img and r = ?r4 and v = "PDict []",
        THEN conjunct2, THEN conjunct2, THEN conjunct2]
    by (simp add: sample_request_body) (simp add: sample_library_def)
  show ?thesis using a b c d by simp
qed

text \<open>
  A status outside 2xx that is no error for \<^verbatim>\<open>raise_for_status\<close>: the answer
  \<^verbatim>\<open>300 Multiple Choices\<close> with a JSON body is returned like a success.
\<close>

theorem predict_image_status_300_counterexample:
  "predict_image
     (sample_library\<lparr>requests_post := \<lambda>u body. Responded
        \<lparr>status_code = 300, reason = ''Multiple Choices'', url = u, content = ''{}''\<rparr>\<rparr>)
     [[(1, 2, 3)]]
   = ([HttpPost predict_url (PDict [(''file'', PStr ''AQID'')])], PDict [])"
  by (simp add: predict_image_def try_post_def raise_for_status_def Let_def
      sample_library_def b64char_def b64chars_def)

end
